theory Spec2Isabelle
  imports Complex_Main "HOL-Library.Sublist"
begin

section \<open>The ONNX export script \<^verbatim>\<open>scripts/export_lfm2_onnx.py\<close>\<close>

text \<open>
  The script sequences calls into third-party libraries (transformers, optimum, torch),
  the logger, \<^verbatim>\<open>print\<close> and the file system. The embedding keeps the script's own control
  flow (the order of the calls, the two \<^verbatim>\<open>try\<close> blocks, the pad-token fix, the size loop)
  and takes what the libraries answer from a record \<open>libs\<close> of outcomes. What the script
  does to the outside world is kept in a \<open>world\<close>: the directories it writes and a trace of
  the library calls, log records and printed lines, in the order they happen.
\<close>

subsection \<open>Exceptions\<close>

text \<open>
  A value of \<open>exn\<close> is an instance of Python's class \<^verbatim>\<open>Exception\<close>: the names of its class
  and of that class's bases below \<^verbatim>\<open>Exception\<close>, the class itself first, and its message
  (what \<^verbatim>\<open>f"{e}"\<close> shows). Both handlers of the script are \<^verbatim>\<open>except Exception\<close>, which
  catches every value of this type; the import guard is \<^verbatim>\<open>except ImportError\<close>, which
  catches the instances of \<^verbatim>\<open>ImportError\<close> and of every subclass. Signals that are not
  instances of \<^verbatim>\<open>Exception\<close> (\<^verbatim>\<open>KeyboardInterrupt\<close>, \<^verbatim>\<open>SystemExit\<close> raised inside a library)
  are not values of this type.
\<close>

datatype exn = Exn (exn_classes: "string list") (exn_msg: string)

definition isinstance :: "exn \<Rightarrow> string \<Rightarrow> bool" where
  "isinstance e cls \<longleftrightarrow> cls \<in> set (exn_classes e)"

definition is_ImportError :: "exn \<Rightarrow> bool" where
  "is_ImportError e \<longleftrightarrow> isinstance e ''ImportError''"

text \<open>The exceptions that the interpreter itself raises in the code below.\<close>

definition PermissionError :: exn where
  "PermissionError = Exn [''PermissionError'', ''OSError''] ''[Errno 13] Permission denied''"

definition FileNotFoundError :: exn where
  "FileNotFoundError =
     Exn [''FileNotFoundError'', ''OSError''] ''[Errno 2] No such file or directory''"

definition OverflowError :: exn where
  "OverflowError =
     Exn [''OverflowError'', ''ArithmeticError'']
       ''integer division result too large for a float''"

definition ZeroDivisionError :: exn where
  "ZeroDivisionError = Exn [''ZeroDivisionError'', ''ArithmeticError''] ''division by zero''"

definition KeyError :: "string \<Rightarrow> exn" where
  "KeyError key = Exn [''KeyError'', ''LookupError''] ([CHR 0x27] @ key @ [CHR 0x27])"

definition IndexError :: exn where
  "IndexError = Exn [''IndexError'', ''LookupError''] ''index 0 is out of bounds''"

text \<open>How a run of a function, of \<^verbatim>\<open>main\<close> or of the whole script ends.\<close>

datatype outcome = Returned | Raised exn | SystemExit nat

subsection \<open>Binary64 arithmetic\<close>

text \<open>
  A Python \<^verbatim>\<open>float\<close> is a binary64 number; the model keeps its exact value, a rational.
  \<open>bit_length\<close> is \<^verbatim>\<open>int.bit_length\<close>. \<open>ulp x\<close> is the distance between neighbouring
  binary64 numbers at a positive \<open>x\<close>: \<open>2 ^ (e - 52)\<close> where \<open>2 ^ e \<le> x < 2 ^ (e + 1)\<close>, and
  \<open>2 ^ -1074\<close> below the normal range. \<open>b64 x\<close> is the binary64 number nearest to \<open>x\<close>, a tie
  going to the even significand, as the hardware rounds; a value of \<open>2 ^ 1024\<close> or more
  is not a finite float, which the callers test.
\<close>

fun bit_length :: "nat \<Rightarrow> nat" where
  "bit_length n = (if n = 0 then 0 else Suc (bit_length (n div 2)))"

definition round_half_even :: "rat \<Rightarrow> int" where
  "round_half_even s =
     (let lower = \<lfloor>s\<rfloor>;
          frac = s - of_int lower
      in if frac < 1 / 2 then lower
         else if 1 / 2 < frac then lower + 1
         else if even lower then lower else lower + 1)"

definition ulp :: "rat \<Rightarrow> rat" where
  "ulp x =
     (if 1 \<le> x then 2 ^ (bit_length (nat \<lfloor>x\<rfloor>) - 1) / 2 ^ 52
      else 1 / 2 ^ (min (bit_length (nat (\<lceil>1 / x\<rceil> - 1))) 1022 + 52))"

definition b64 :: "rat \<Rightarrow> rat" where
  "b64 x =
     (if x = 0 then 0
      else if 0 < x then of_int (round_half_even (x / ulp x)) * ulp x
      else - (of_int (round_half_even (- x / ulp (- x))) * ulp (- x)))"

text \<open>
  \<^verbatim>\<open>a / b\<close> on two integers: the binary64 number nearest to the exact quotient, or
  \<^verbatim>\<open>OverflowError\<close> when that is too large for a float.
\<close>

definition truediv :: "nat \<Rightarrow> nat \<Rightarrow> exn + rat" where
  "truediv a b =
     (if b = 0 then Inl ZeroDivisionError
      else let q = b64 (of_nat a / of_nat b)
           in if 2 ^ 1024 \<le> q then Inl OverflowError else Inr q)"

text \<open>
  \<^verbatim>\<open>round(x, ndigits)\<close> on a float: the exact value of \<open>x\<close> is rounded to \<open>ndigits\<close> decimals,
  a tie going to the even digit (\<open>dec_round\<close>), and the float nearest to that decimal is
  returned.
\<close>

definition dec_round :: "rat \<Rightarrow> nat \<Rightarrow> rat" where
  "dec_round x ndigits = of_int (round_half_even (x * 10 ^ ndigits)) / 10 ^ ndigits"

definition py_round :: "rat \<Rightarrow> nat \<Rightarrow> exn + rat" where
  "py_round x ndigits =
     (let d = b64 (dec_round x ndigits)
      in if 2 ^ 1024 \<le> \<bar>d\<bar>
         then Inl (Exn [''OverflowError'', ''ArithmeticError'']
                     ''rounded value too large to represent'')
         else Inr d)"

subsection \<open>Directory trees and \<^verbatim>\<open>get_dir_size\<close>\<close>

text \<open>
  What the process finds at a path (POSIX, \<^verbatim>\<open>pathlib\<close> of Python 3.11).
  \<^item> \<open>File n\<close>: a regular file of \<open>n\<close> bytes.
  \<^item> \<open>Vanishing\<close>: a regular file that is removed between \<^verbatim>\<open>is_file()\<close> and \<^verbatim>\<open>stat()\<close>.
  \<^item> \<open>Missing\<close>: nothing (any longer); the target of a dangling link.
  \<^item> \<open>Dir a children\<close>: a directory that the process can list and search (\<open>Open\<close>), list
    but not search (\<open>ListOnly\<close>) or not list (\<open>Closed\<close>).
  \<^item> \<open>Symlink t\<close>: a symbolic link, with what it resolves to.
  \<^item> \<open>Other n\<close>: a socket, a FIFO, a device.
  \<^item> \<open>Denied\<close>: an entry whose \<^verbatim>\<open>stat\<close> is refused, as is every child of a directory
    without search permission.
\<close>

datatype access = Open | ListOnly | Closed

datatype entry =
    File nat
  | Vanishing
  | Missing
  | Dir access "(string \<times> entry) list"
  | Symlink entry
  | Other nat
  | Denied

text \<open>
  \<^verbatim>\<open>is_file()\<close> and \<^verbatim>\<open>stat().st_size\<close> follow links. \<^verbatim>\<open>is_file()\<close> answers \<^verbatim>\<open>False\<close> where
  there is nothing, and raises where \<^verbatim>\<open>stat\<close> is refused. A directory has a size of its
  own (4096 here); the loop never reads it.
\<close>

fun is_file :: "entry \<Rightarrow> exn + bool" where
  "is_file (File n) = Inr True"
| "is_file Vanishing = Inr True"
| "is_file Missing = Inr False"
| "is_file (Dir a children) = Inr False"
| "is_file (Symlink t) = is_file t"
| "is_file (Other n) = Inr False"
| "is_file Denied = Inl PermissionError"

fun st_size :: "entry \<Rightarrow> exn + nat" where
  "st_size (File n) = Inr n"
| "st_size Vanishing = Inl FileNotFoundError"
| "st_size Missing = Inl FileNotFoundError"
| "st_size (Dir a children) = Inr 4096"
| "st_size (Symlink t) = st_size t"
| "st_size (Other n) = Inr n"
| "st_size Denied = Inl PermissionError"

text \<open>
  \<^verbatim>\<open>path.rglob('*')\<close>: the children of the directory, then what lies below each
  subdirectory in turn. It does not descend through a link, passes over a directory it
  cannot list, and yields the children of a directory it can list but not search; it
  follows a link at \<open>path\<close> itself, yields nothing when \<open>path\<close> is not a directory, and
  raises when \<open>path\<close> cannot be looked at.
\<close>

fun below :: "entry \<Rightarrow> entry list" where
  "below (Dir Open children) =
     map snd children @ concat (map (\<lambda>(name, child). below child) children)"
| "below (Dir ListOnly children) = map (\<lambda>child. Denied) children"
| "below (Dir Closed children) = []"
| "below (File n) = []"
| "below Vanishing = []"
| "below Missing = []"
| "below (Symlink t) = []"
| "below (Other n) = []"
| "below Denied = []"

fun rglob :: "entry \<Rightarrow> exn + entry list" where
  "rglob (Dir a children) = Inr (below (Dir a children))"
| "rglob (Symlink t) = rglob t"
| "rglob Denied = Inl PermissionError"
| "rglob (File n) = Inr []"
| "rglob Vanishing = Inr []"
| "rglob Missing = Inr []"
| "rglob (Other n) = Inr []"

text \<open>
  The loop of \<^verbatim>\<open>get_dir_size\<close>:
  \<^verbatim>\<open>for file_path in path.rglob('*'): if file_path.is_file(): total_size += ...st_size\<close>
\<close>

fun total_size_loop :: "entry list \<Rightarrow> nat \<Rightarrow> exn + nat" where
  "total_size_loop [] total_size = Inr total_size"
| "total_size_loop (file_path # rest) total_size =
     (case is_file file_path of
        Inl e \<Rightarrow> Inl e
      | Inr True \<Rightarrow>
          (case st_size file_path of
             Inl e \<Rightarrow> Inl e
           | Inr n \<Rightarrow> total_size_loop rest (total_size + n))
      | Inr False \<Rightarrow> total_size_loop rest total_size)"

definition get_dir_size :: "entry \<Rightarrow> exn + rat" where
  "get_dir_size path =
     (case rglob path of
        Inl e \<Rightarrow> Inl e
      | Inr found \<Rightarrow>
     (case total_size_loop found 0 of
        Inl e \<Rightarrow> Inl e
      | Inr total_size \<Rightarrow>
     (case truediv total_size (1024 * 1024) of
        Inl e \<Rightarrow> Inl e
      | Inr megabytes \<Rightarrow> py_round megabytes 2)))"

text \<open>
  For comparison, by recursion over the tree. \<open>regular_files_under\<close> is the total size of
  the regular files at any depth under a directory, in the directories the process can
  list, links not followed. \<open>linked_files_under\<close> is the total size of the regular files
  that the symbolic links found there resolve to; those files need not lie under the
  directory. \<open>inspectable\<close> says that the walk meets no entry that makes \<^verbatim>\<open>is_file()\<close> or
  \<^verbatim>\<open>stat()\<close> raise.
\<close>

fun file_size :: "entry \<Rightarrow> nat" where
  "file_size (File n) = n"
| "file_size (Symlink t) = file_size t"
| "file_size Vanishing = 0"
| "file_size Missing = 0"
| "file_size (Dir a children) = 0"
| "file_size (Other n) = 0"
| "file_size Denied = 0"

fun regular_total :: "entry \<Rightarrow> nat" where
  "regular_total (File n) = n"
| "regular_total (Dir Open children) =
     sum_list (map (\<lambda>(name, child). regular_total child) children)"
| "regular_total (Dir ListOnly children) = 0"
| "regular_total (Dir Closed children) = 0"
| "regular_total Vanishing = 0"
| "regular_total Missing = 0"
| "regular_total (Symlink t) = 0"
| "regular_total (Other n) = 0"
| "regular_total Denied = 0"

fun linked_total :: "entry \<Rightarrow> nat" where
  "linked_total (Symlink t) = file_size t"
| "linked_total (Dir Open children) =
     sum_list (map (\<lambda>(name, child). linked_total child) children)"
| "linked_total (Dir ListOnly children) = 0"
| "linked_total (Dir Closed children) = 0"
| "linked_total (File n) = 0"
| "linked_total Vanishing = 0"
| "linked_total Missing = 0"
| "linked_total (Other n) = 0"
| "linked_total Denied = 0"

fun regular_files_under :: "entry \<Rightarrow> nat" where
  "regular_files_under (Dir a children) = regular_total (Dir a children)"
| "regular_files_under (Symlink t) = regular_files_under t"
| "regular_files_under (File n) = 0"
| "regular_files_under Vanishing = 0"
| "regular_files_under Missing = 0"
| "regular_files_under (Other n) = 0"
| "regular_files_under Denied = 0"

fun linked_files_under :: "entry \<Rightarrow> nat" where
  "linked_files_under (Dir a children) = linked_total (Dir a children)"
| "linked_files_under (Symlink t) = linked_files_under t"
| "linked_files_under (File n) = 0"
| "linked_files_under Vanishing = 0"
| "linked_files_under Missing = 0"
| "linked_files_under (Other n) = 0"
| "linked_files_under Denied = 0"

definition can_inspect :: "entry \<Rightarrow> bool" where
  "can_inspect f =
     (case is_file f of
        Inl e \<Rightarrow> False
      | Inr True \<Rightarrow> (case st_size f of Inl e \<Rightarrow> False | Inr n \<Rightarrow> True)
      | Inr False \<Rightarrow> True)"

definition inspectable :: "entry \<Rightarrow> bool" where
  "inspectable path =
     (case rglob path of Inl e \<Rightarrow> False | Inr found \<Rightarrow> list_all can_inspect found)"

definition counted :: "entry list \<Rightarrow> nat" where
  "counted fs = sum_list (map file_size fs)"

definition one_byte_dir :: entry where
  "one_byte_dir = Dir Open [(''vocab.json'', File 1)]"

definition sample_dir :: entry where
  "sample_dir =
     Dir Open
       [(''tokenizer.json'', File 393216),
        (''onnx'', Dir Open [(''model.onnx'', File 5242880), (''lock'', Other 7)]),
        (''private'', Dir Closed [(''notes.txt'', File 4096)]),
        (''latest'', Symlink (Dir Open [(''elsewhere.bin'', File 1000000)])),
        (''gone'', Symlink Missing)]"

definition linked_dir :: entry where
  "linked_dir =
     Dir Open [(''config.json'', File 5000), (''weights'', Symlink (File 1048576))]"

definition unsearchable_dir :: entry where
  "unsearchable_dir = Dir Open [(''cache'', Dir ListOnly [(''lock'', File 0)])]"

subsection \<open>Tokenizers, directories, the world\<close>

text \<open>
  \<^verbatim>\<open>Path(output_dir)\<close>, as \<^verbatim>\<open>pathlib\<close> builds it on POSIX: the string is split at \<^verbatim>\<open>/\<close>,
  empty parts and \<^verbatim>\<open>.\<close> parts are dropped (\<^verbatim>\<open>..\<close> is kept), and the root is \<^verbatim>\<open>/\<close>, or \<^verbatim>\<open>//\<close>
  for exactly two leading slashes. \<open>path_str\<close> is what an f-string shows for the path; the
  path without root and parts shows as \<^verbatim>\<open>.\<close>. Two paths that name one directory through
  \<^verbatim>\<open>..\<close>, a link or the working directory remain different keys of the disk.
\<close>

datatype path = PurePath (path_root: string) (path_parts: "string list")

fun split_sep :: "string \<Rightarrow> string list" where
  "split_sep [] = [[]]"
| "split_sep (c # cs) =
     (if c = CHR ''/'' then [] # split_sep cs
      else (case split_sep cs of
              [] \<Rightarrow> [[c]]
            | part # parts \<Rightarrow> (c # part) # parts))"

fun join_sep :: "string list \<Rightarrow> string" where
  "join_sep [] = []"
| "join_sep [part] = part"
| "join_sep (part # next_part # parts) = part @ ''/'' @ join_sep (next_part # parts)"

definition Path :: "string \<Rightarrow> path" where
  "Path s =
     (let stripped = dropWhile (\<lambda>c. c = CHR ''/'') s;
          slashes = length s - length stripped;
          anchor = (if slashes = 0 then [] else if slashes = 2 then ''//'' else ''/'')
      in PurePath anchor (filter (\<lambda>part. part \<noteq> [] \<and> part \<noteq> ''.'') (split_sep stripped)))"

fun path_str :: "path \<Rightarrow> string" where
  "path_str (PurePath anchor parts) =
     (if anchor = [] \<and> parts = [] then ''.'' else anchor @ join_sep parts)"

text \<open>
  A tokenizer object: the two attributes the script reads and writes, both optional in
  the library (\<^verbatim>\<open>None\<close> when the token is not set), and everything else it carries
  (vocabulary, merges, settings) as \<open>attrs\<close>.
\<close>

record 'a tokenizer =
  pad_token :: "string option"
  eos_token :: "string option"
  attrs :: 'a

text \<open>
  What an output directory holds: the tokenizer that \<^verbatim>\<open>tokenizer.save_pretrained\<close> wrote
  there last, the model that \<^verbatim>\<open>onnx_model.save_pretrained\<close> wrote there last, and any other
  files. The two saves write disjoint sets of files and remove nothing.
\<close>

record ('a, 'm) directory =
  tokenizer_bundle :: "'a tokenizer option"
  model_artifact :: "'m option"
  other_files :: "(string \<times> entry) list"

definition empty_directory :: "('a, 'm) directory" where
  "empty_directory = \<lparr>tokenizer_bundle = None, model_artifact = None, other_files = []\<rparr>"

text \<open>
  The records the script logs, one constructor per \<^verbatim>\<open>logger\<close> call of the source with the
  values its f-string shows; \<open>ExportCompleted\<close> is the success banner. Then the library
  calls the script makes, and the events of a run: a call being made, a log record, a
  line passed to \<^verbatim>\<open>print\<close>.
\<close>

datatype level = INFO | WARNING | ERROR

datatype msg =
    StartingExport string
  | LoadingTokenizer
  | TokenizerSavedTo path
  | LoadingPyTorchModel
  | ExportingToONNX
  | ONNXModelSavedTo path
  | VerifyingExport
  | ExportCompleted
  | ModelSavedTo path
  | ModelSizeMB rat
  | ExportFailed exn
  | VerificationSuccessful string
  | VerificationFailed exn
  | MayHaveIssues

datatype call =
    Import_packages
  | Logging_basicConfig
  | Parse_args
  | Mkdir
  | AutoTokenizer_load
  | Tokenizer_save
  | AutoModelForCausalLM_load
  | ORTModel_export
  | ORTModel_save
  | ORTModel_reload
  | Tokenizer_encode
  | ORTModel_generate
  | Tokenizer_decode

datatype event = Call call | Log level msg | Print string

record ('a, 'm) world =
  disk :: "path \<Rightarrow> ('a, 'm) directory option"
  trace :: "event list"

definition emit :: "event \<Rightarrow> ('a, 'm) world \<Rightarrow> ('a, 'm) world" where
  "emit ev w = w\<lparr>trace := trace w @ [ev]\<rparr>"

definition dir_at :: "('a, 'm) world \<Rightarrow> path \<Rightarrow> ('a, 'm) directory" where
  "dir_at w p = (case disk w p of None \<Rightarrow> empty_directory | Some d \<Rightarrow> d)"

text \<open>Arguments the script passes to the libraries, and the parsed command line.\<close>

datatype provider = CUDAExecutionProvider | CPUExecutionProvider
datatype torch_dtype = Float16 | Float32

record generate_kwargs =
  max_length :: nat
  temperature :: rat
  do_sample :: bool
  pad_token_id :: "nat option"
  eos_token_id :: "nat option"

record args =
  args_model_id :: string
  args_output_dir :: string
  args_verify :: bool

text \<open>
  What the outside answers, call by call. A call that can raise answers \<open>Inl e\<close> (or
  \<open>Some e\<close> when it returns nothing); \<open>'pt\<close> is a loaded PyTorch model, \<open>'m\<close> an ONNX model.
  \<^item> \<open>import_packages\<close>: the three imports at the top of the script.
  \<^item> \<open>parse_args\<close>: \<^verbatim>\<open>argparse\<close> with the three options the script declares; \<open>Inl code\<close> is
    its own exit (usage error, \<^verbatim>\<open>--help\<close>).
  \<^item> \<open>mkdir\<close>: \<^verbatim>\<open>output_path.mkdir(parents=True, exist_ok=True)\<close>.
  \<^item> \<open>ORTModelForCausalLM_export\<close> is \<^verbatim>\<open>from_pretrained(model_id, export=True, provider=...)\<close>;
    \<open>ORTModelForCausalLM_from_pretrained\<close> is the reload from the output directory, which
    sees what the directory holds.
  \<^item> \<open>tokenizer_call\<close> is \<^verbatim>\<open>tokenizer(test_prompt, return_tensors="pt")\<close>, a mapping from
    which the script reads \<^verbatim>\<open>"input_ids"\<close>; \<open>generate\<close> samples, so its answer is the
    library's choice.
  \<^item> \<open>tokenizer_files\<close> and \<open>onnx_files\<close>: the files a save writes, with their sizes.
  \<^item> \<open>stdout_write\<close>: what \<^verbatim>\<open>print\<close> of a line raises, if anything (a line the stream cannot
    encode, a closed stream).
  An answer depends on the arguments of the call only (for the reload, on what the
  directory holds): the libraries keep no state of their own between calls, such as a
  download cache, and a save that raises has written nothing.
\<close>

record ('a, 'pt, 'm) libs =
  import_packages :: "exn option"
  parse_args :: "string list \<Rightarrow> nat + args"
  mkdir :: "path \<Rightarrow> exn option"
  AutoTokenizer_from_pretrained :: "string \<Rightarrow> exn + 'a tokenizer"
  tokenizer_save_pretrained :: "'a tokenizer \<Rightarrow> path \<Rightarrow> exn option"
  AutoModelForCausalLM_from_pretrained ::
    "string \<Rightarrow> torch_dtype \<Rightarrow> string \<Rightarrow> bool \<Rightarrow> exn + 'pt"
  cuda_is_available :: bool
  ORTModelForCausalLM_export :: "string \<Rightarrow> provider \<Rightarrow> exn + 'm"
  onnx_save_pretrained :: "'m \<Rightarrow> path \<Rightarrow> exn option"
  ORTModelForCausalLM_from_pretrained :: "path \<Rightarrow> ('a, 'm) directory option \<Rightarrow> exn + 'm"
  tokenizer_call :: "'a tokenizer \<Rightarrow> string \<Rightarrow> exn + (string \<Rightarrow> nat list list option)"
  convert_tokens_to_ids :: "'a tokenizer \<Rightarrow> string \<Rightarrow> nat"
  generate :: "'m \<Rightarrow> nat list list \<Rightarrow> generate_kwargs \<Rightarrow> exn + nat list list"
  decode :: "'a tokenizer \<Rightarrow> nat list \<Rightarrow> exn + string"
  tokenizer_files :: "'a tokenizer \<Rightarrow> (string \<times> entry) list"
  onnx_files :: "'m \<Rightarrow> (string \<times> entry) list"
  stdout_write :: "string \<Rightarrow> exn option"

text \<open>
  The directory as \<^verbatim>\<open>pathlib\<close> sees it, for \<open>get_dir_size\<close>: the script has just written
  into it, so it can be listed and searched; what else it holds is \<open>other_files\<close>.
\<close>

definition directory_tree :: "('a, 'pt, 'm) libs \<Rightarrow> ('a, 'm) directory \<Rightarrow> entry" where
  "directory_tree libs d =
     Dir Open ((case tokenizer_bundle d of None \<Rightarrow> [] | Some t \<Rightarrow> tokenizer_files libs t)
          @ (case model_artifact d of None \<Rightarrow> [] | Some m \<Rightarrow> onnx_files libs m)
          @ other_files d)"

text \<open>
  \<^verbatim>\<open>print_usage_instructions\<close>: twenty calls of \<^verbatim>\<open>print\<close>, one line each. A \<^verbatim>\<open>print\<close> that
  raises ends the function with that exception, the lines before it printed.
\<close>

definition usage_lines :: "path \<Rightarrow> string list" where
  "usage_lines model_path =
     [CHR 0x0A # replicate 50 CHR ''='',
      ''USAGE INSTRUCTIONS'',
      replicate 50 CHR ''='',
      ''Model Path: '' @ path_str model_path,
      '''',
      ''In your Go application:'',
      ''generator := generation.NewHugotGenerator('' @ [CHR 0x22] @ path_str model_path @ [CHR 0x22] @ '')'',
      '''',
      ''Or via config:'',
      ''llm.model_path = '' @ [CHR 0x22] @ path_str model_path @ [CHR 0x22],
      '''',
      ''Recommended generation parameters:'',
      ''- temperature: 0.3'',
      ''- min_p: 0.15'',
      ''- repetition_penalty: 1.05'',
      ''- max_new_tokens: 512'',
      '''',
      ''For chat templates, use:'',
      ''template := generation.GetChatTemplate('' @ [CHR 0x22] @ ''lfm2'' @ [CHR 0x22] @ '')'',
      replicate 50 CHR ''='']"

fun print_lines ::
  "('a, 'pt, 'm) libs \<Rightarrow> string list \<Rightarrow> ('a, 'm) world \<Rightarrow> (exn + unit) \<times> ('a, 'm) world"
where
  "print_lines libs [] w = (Inr (), w)"
| "print_lines libs (line # rest) w =
     (case stdout_write libs line of
        Some e \<Rightarrow> (Inl e, w)
      | None \<Rightarrow> print_lines libs rest (emit (Print line) w))"

definition print_usage_instructions ::
  "('a, 'pt, 'm) libs \<Rightarrow> path \<Rightarrow> ('a, 'm) world \<Rightarrow> (exn + unit) \<times> ('a, 'm) world"
where
  "print_usage_instructions libs model_path w = print_lines libs (usage_lines model_path) w"

subsection \<open>The workflow\<close>

text \<open>
  \<^verbatim>\<open>tokenizer.pad_token_id\<close> and \<^verbatim>\<open>tokenizer.eos_token_id\<close>: the id of the token, \<^verbatim>\<open>None\<close>
  when the token is not set.
\<close>

definition pad_token_id_of :: "('a, 'pt, 'm) libs \<Rightarrow> 'a tokenizer \<Rightarrow> nat option" where
  "pad_token_id_of libs tokenizer = map_option (convert_tokens_to_ids libs tokenizer) (pad_token tokenizer)"

definition eos_token_id_of :: "('a, 'pt, 'm) libs \<Rightarrow> 'a tokenizer \<Rightarrow> nat option" where
  "eos_token_id_of libs tokenizer = map_option (convert_tokens_to_ids libs tokenizer) (eos_token tokenizer)"

text \<open>
  \<^verbatim>\<open>verify_export\<close>, lines 104 to 130. \<open>verify_export_try\<close> is the body of its \<^verbatim>\<open>try\<close>: every
  call that can raise ends the body with that exception, as do the two subscripts
  (\<^verbatim>\<open>inputs["input_ids"]\<close>, \<^verbatim>\<open>outputs[0]\<close>). \<^verbatim>\<open>torch.no_grad()\<close> changes nothing the model
  observes. \<open>verify_export\<close> adds the handler \<^verbatim>\<open>except Exception as e\<close>, which logs two
  warnings and lets the function return.
\<close>

definition verify_export_try ::
  "('a, 'pt, 'm) libs \<Rightarrow> path \<Rightarrow> 'a tokenizer \<Rightarrow> ('a, 'm) world \<Rightarrow> (exn + unit) \<times> ('a, 'm) world"
where
  "verify_export_try libs model_path tokenizer w =
     (let w = emit (Call ORTModel_reload) w in
      case ORTModelForCausalLM_from_pretrained libs model_path (disk w model_path) of
        Inl e \<Rightarrow> (Inl e, w)
      | Inr model \<Rightarrow>
     (let test_prompt = ''Hello, I am'';
          w = emit (Call Tokenizer_encode) w in
      case tokenizer_call libs tokenizer test_prompt of
        Inl e \<Rightarrow> (Inl e, w)
      | Inr inputs \<Rightarrow>
     (case inputs ''input_ids'' of
        None \<Rightarrow> (Inl (KeyError ''input_ids''), w)
      | Some input_ids \<Rightarrow>
     (let w = emit (Call ORTModel_generate) w in
      case generate libs model input_ids
             \<lparr>max_length = 20, temperature = 3 / 10, do_sample = True,
              pad_token_id = pad_token_id_of libs tokenizer,
              eos_token_id = eos_token_id_of libs tokenizer\<rparr> of
        Inl e \<Rightarrow> (Inl e, w)
      | Inr outputs \<Rightarrow>
     (case outputs of
        [] \<Rightarrow> (Inl IndexError, w)
      | first_output # _ \<Rightarrow>
     (let w = emit (Call Tokenizer_decode) w in
      case decode libs tokenizer first_output of
        Inl e \<Rightarrow> (Inl e, w)
      | Inr generated_text \<Rightarrow>
          (Inr (), emit (Log INFO (VerificationSuccessful generated_text)) w)))))))"

definition verify_export ::
  "('a, 'pt, 'm) libs \<Rightarrow> path \<Rightarrow> 'a tokenizer \<Rightarrow> ('a, 'm) world \<Rightarrow> (exn + unit) \<times> ('a, 'm) world"
where
  "verify_export libs model_path tokenizer w =
     (case verify_export_try libs model_path tokenizer w of
        (Inr u, w) \<Rightarrow> (Inr (), w)
      | (Inl e, w) \<Rightarrow>
          (let w = emit (Log WARNING (VerificationFailed e)) w;
               w = emit (Log WARNING MayHaveIssues) w
           in (Inr (), w)))"

text \<open>
  \<^verbatim>\<open>export_lfm2_to_onnx\<close>, lines 38 to 102, in the order of the source. Its \<^verbatim>\<open>try\<close> block is
  \<open>export_try\<close>, written in three parts:
  \<^item> \<open>load_and_save_tokenizer\<close>, lines 54 to 64: load the tokenizer, set a missing pad
    token, save;
  \<^item> lines 66 to 73, in \<open>export_try\<close> itself: load the PyTorch model, whose result is
    bound to \<^verbatim>\<open>model\<close> and not used again;
  \<^item> \<open>convert_and_report\<close>, lines 75 to 98: convert, save, verify, report, print. The
    size of line 95 is computed, and the lines of line 98 are printed, inside the \<^verbatim>\<open>try\<close>:
    an exception of \<^verbatim>\<open>get_dir_size\<close> or of a \<^verbatim>\<open>print\<close> ends the block like any other.
  The handler \<^verbatim>\<open>except Exception as e\<close> of lines 100 to 102 logs and re-raises;
  \<^verbatim>\<open>mkdir\<close> is called before the \<^verbatim>\<open>try\<close>, so what it raises is not logged.
\<close>

definition load_and_save_tokenizer ::
  "('a, 'pt, 'm) libs \<Rightarrow> string \<Rightarrow> path \<Rightarrow> ('a, 'm) world \<Rightarrow> (exn + 'a tokenizer) \<times> ('a, 'm) world"
where
  "load_and_save_tokenizer libs model_id output_path w =
     (let w = emit (Log INFO LoadingTokenizer) w;
          w = emit (Call AutoTokenizer_load) w in
      case AutoTokenizer_from_pretrained libs model_id of
        Inl e \<Rightarrow> (Inl e, w)
      | Inr tokenizer \<Rightarrow>
     (let tokenizer = (if pad_token tokenizer = None
                       then tokenizer\<lparr>pad_token := eos_token tokenizer\<rparr> else tokenizer);
          w = emit (Call Tokenizer_save) w in
      case tokenizer_save_pretrained libs tokenizer output_path of
        Some e \<Rightarrow> (Inl e, w)
      | None \<Rightarrow>
     (let w = w\<lparr>disk := (disk w)(output_path \<mapsto> (dir_at w output_path)\<lparr>tokenizer_bundle := Some tokenizer\<rparr>)\<rparr>;
          w = emit (Log INFO (TokenizerSavedTo output_path)) w
      in (Inr tokenizer, w))))"

definition convert_and_report ::
  "('a, 'pt, 'm) libs \<Rightarrow> string \<Rightarrow> path \<Rightarrow> 'a tokenizer \<Rightarrow> ('a, 'm) world \<Rightarrow> (exn + unit) \<times> ('a, 'm) world"
where
  "convert_and_report libs model_id output_path tokenizer w =
     (let w = emit (Log INFO ExportingToONNX) w;
          w = emit (Call ORTModel_export) w in
      case ORTModelForCausalLM_export libs model_id
             (if cuda_is_available libs then CUDAExecutionProvider else CPUExecutionProvider) of
        Inl e \<Rightarrow> (Inl e, w)
      | Inr onnx_model \<Rightarrow>
     (let w = emit (Call ORTModel_save) w in
      case onnx_save_pretrained libs onnx_model output_path of
        Some e \<Rightarrow> (Inl e, w)
      | None \<Rightarrow>
     (let w = w\<lparr>disk := (disk w)(output_path \<mapsto> (dir_at w output_path)\<lparr>model_artifact := Some onnx_model\<rparr>)\<rparr>;
          w = emit (Log INFO (ONNXModelSavedTo output_path)) w;
          w = emit (Log INFO VerifyingExport) w in
      case verify_export libs output_path tokenizer w of
        (Inl e, w) \<Rightarrow> (Inl e, w)
      | (Inr u, w) \<Rightarrow>
     (let w = emit (Log INFO ExportCompleted) w;
          w = emit (Log INFO (ModelSavedTo output_path)) w in
      case get_dir_size (directory_tree libs (dir_at w output_path)) of
        Inl e \<Rightarrow> (Inl e, w)
      | Inr megabytes \<Rightarrow>
     (let w = emit (Log INFO (ModelSizeMB megabytes)) w
      in print_usage_instructions libs output_path w)))))"

definition export_try ::
  "('a, 'pt, 'm) libs \<Rightarrow> string \<Rightarrow> path \<Rightarrow> ('a, 'm) world \<Rightarrow> (exn + unit) \<times> ('a, 'm) world"
where
  "export_try libs model_id output_path w =
     (case load_and_save_tokenizer libs model_id output_path w of
        (Inl e, w) \<Rightarrow> (Inl e, w)
      | (Inr tokenizer, w) \<Rightarrow>
     (let w = emit (Log INFO LoadingPyTorchModel) w;
          w = emit (Call AutoModelForCausalLM_load) w in
      case AutoModelForCausalLM_from_pretrained libs model_id Float16 ''auto'' True of
        Inl e \<Rightarrow> (Inl e, w)
      | Inr model \<Rightarrow> convert_and_report libs model_id output_path tokenizer w))"

definition export_lfm2_to_onnx ::
  "('a, 'pt, 'm) libs \<Rightarrow> string \<Rightarrow> string \<Rightarrow> ('a, 'm) world \<Rightarrow> (exn + unit) \<times> ('a, 'm) world"
where
  "export_lfm2_to_onnx libs model_id output_dir w =
     (let w = emit (Log INFO (StartingExport model_id)) w;
          output_path = Path output_dir;
          w = emit (Call Mkdir) w in
      case mkdir libs output_path of
        Some e \<Rightarrow> (Inl e, w)
      | None \<Rightarrow>
     (let w = (if disk w output_path = None
               then w\<lparr>disk := (disk w)(output_path \<mapsto> empty_directory)\<rparr> else w) in
      case export_try libs model_id output_path w of
        (Inl e, w) \<Rightarrow> (Inl e, emit (Log ERROR (ExportFailed e)) w)
      | (Inr u, w) \<Rightarrow> (Inr (), w)))"

text \<open>
  \<^verbatim>\<open>main\<close>, lines 163 to 183: the parser is built, the arguments are parsed, and the export
  is called with \<^verbatim>\<open>args.model_id\<close> and \<^verbatim>\<open>args.output_dir\<close>.
\<close>

definition main ::
  "('a, 'pt, 'm) libs \<Rightarrow> string list \<Rightarrow> ('a, 'm) world \<Rightarrow> outcome \<times> ('a, 'm) world"
where
  "main libs argv w =
     (let w = emit (Call Parse_args) w in
      case parse_args libs argv of
        Inl code \<Rightarrow> (SystemExit code, w)
      | Inr args \<Rightarrow>
          (case export_lfm2_to_onnx libs (args_model_id args) (args_output_dir args) w of
             (Inl e, w) \<Rightarrow> (Raised e, w)
           | (Inr u, w) \<Rightarrow> (Returned, w)))"

text \<open>
  The module run as a script: the guarded imports of lines 25 to 32, then
  \<^verbatim>\<open>logging.basicConfig\<close>, then \<^verbatim>\<open>main()\<close>. The guard catches \<^verbatim>\<open>ImportError\<close> and its
  subclasses only; any other exception of an import leaves the script uncaught, and so
  does an exception of one of the guard's own two \<^verbatim>\<open>print\<close> calls.
\<close>

definition script ::
  "('a, 'pt, 'm) libs \<Rightarrow> string list \<Rightarrow> ('a, 'm) world \<Rightarrow> outcome \<times> ('a, 'm) world"
where
  "script libs argv w =
     (let w = emit (Call Import_packages) w in
      case import_packages libs of
        Some e \<Rightarrow>
          (if is_ImportError e
           then (case print_lines libs
                        [''Missing required packages: '' @ exn_msg e,
                         ''Install with: pip install transformers optimum[onnxruntime] torch''] w of
                   (Inl e', w) \<Rightarrow> (Raised e', w)
                 | (Inr u, w) \<Rightarrow> (SystemExit 1, w))
           else (Raised e, w))
      | None \<Rightarrow>
          (let w = emit (Call Logging_basicConfig) w
           in main libs argv w))"


text \<open>
  For comparison (claim C10): the same workflow with the step of lines 66 to 73
  removed, and nothing else changed.
\<close>

definition export_try_without_load ::
  "('a, 'pt, 'm) libs \<Rightarrow> string \<Rightarrow> path \<Rightarrow> ('a, 'm) world \<Rightarrow> (exn + unit) \<times> ('a, 'm) world"
where
  "export_try_without_load libs model_id output_path w =
     (case load_and_save_tokenizer libs model_id output_path w of
        (Inl e, w) \<Rightarrow> (Inl e, w)
      | (Inr tokenizer, w) \<Rightarrow> convert_and_report libs model_id output_path tokenizer w)"

definition export_lfm2_to_onnx_without_load ::
  "('a, 'pt, 'm) libs \<Rightarrow> string \<Rightarrow> string \<Rightarrow> ('a, 'm) world \<Rightarrow> (exn + unit) \<times> ('a, 'm) world"
where
  "export_lfm2_to_onnx_without_load libs model_id output_dir w =
     (let w = emit (Log INFO (StartingExport model_id)) w;
          output_path = Path output_dir;
          w = emit (Call Mkdir) w in
      case mkdir libs output_path of
        Some e \<Rightarrow> (Inl e, w)
      | None \<Rightarrow>
     (let w = (if disk w output_path = None
               then w\<lparr>disk := (disk w)(output_path \<mapsto> empty_directory)\<rparr> else w) in
      case export_try_without_load libs model_id output_path w of
        (Inl e, w) \<Rightarrow> (Inl e, emit (Log ERROR (ExportFailed e)) w)
      | (Inr u, w) \<Rightarrow> (Inr (), w)))"

subsection \<open>Reading a run\<close>

text \<open>
  The events a run added to the trace, whether an event is a printed line, and an
  ordering test: \<open>preceded_by a b xs\<close> holds when no \<open>b\<close> stands in \<open>xs\<close> before the first
  \<open>a\<close> (so wherever \<open>b\<close> occurs, \<open>a\<close> occurred earlier).
\<close>

definition new_events :: "('a, 'm) world \<Rightarrow> ('a, 'm) world \<Rightarrow> event list" where
  "new_events w w' = drop (length (trace w)) (trace w')"

fun is_Print :: "event \<Rightarrow> bool" where
  "is_Print (Print s) = True"
| "is_Print (Call c) = False"
| "is_Print (Log l m) = False"

fun preceded_by :: "'e \<Rightarrow> 'e \<Rightarrow> 'e list \<Rightarrow> bool" where
  "preceded_by a b [] = True"
| "preceded_by a b (x # xs) =
     (if x = a then True else if x = b then False else preceded_by a b xs)"

text \<open>
  What \<open>print_lines\<close> gets printed before a \<^verbatim>\<open>print\<close> raises, and what that \<^verbatim>\<open>print\<close> raises.
\<close>

fun printed :: "('a, 'pt, 'm) libs \<Rightarrow> string list \<Rightarrow> string list" where
  "printed libs [] = []"
| "printed libs (line # rest) =
     (case stdout_write libs line of Some e \<Rightarrow> [] | None \<Rightarrow> line # printed libs rest)"

fun print_failure :: "('a, 'pt, 'm) libs \<Rightarrow> string list \<Rightarrow> exn option" where
  "print_failure libs [] = None"
| "print_failure libs (line # rest) =
     (case stdout_write libs line of Some e \<Rightarrow> Some e | None \<Rightarrow> print_failure libs rest)"

text \<open>
  An exception \<open>e\<close> raised by tokenizer acquisition (load, save), model acquisition or
  conversion (export, save): the first of these library calls that raises, raises \<open>e\<close>.
\<close>

definition raised_before_verification ::
  "('a, 'pt, 'm) libs \<Rightarrow> string \<Rightarrow> path \<Rightarrow> exn \<Rightarrow> bool"
where
  "raised_before_verification libs model_id output_path e =
     (case AutoTokenizer_from_pretrained libs model_id of
        Inl e' \<Rightarrow> e' = e
      | Inr tokenizer \<Rightarrow>
     (case tokenizer_save_pretrained libs
             (if pad_token tokenizer = None
              then tokenizer\<lparr>pad_token := eos_token tokenizer\<rparr> else tokenizer) output_path of
        Some e' \<Rightarrow> e' = e
      | None \<Rightarrow>
     (case AutoModelForCausalLM_from_pretrained libs model_id Float16 ''auto'' True of
        Inl e' \<Rightarrow> e' = e
      | Inr model \<Rightarrow>
     (case ORTModelForCausalLM_export libs model_id
             (if cuda_is_available libs then CUDAExecutionProvider else CPUExecutionProvider) of
        Inl e' \<Rightarrow> e' = e
      | Inr onnx_model \<Rightarrow>
     (case onnx_save_pretrained libs onnx_model output_path of
        Some e' \<Rightarrow> e' = e
      | None \<Rightarrow> False)))))"

subsection \<open>Sample libraries and worlds\<close>

definition gpt2_tokenizer :: "string list tokenizer" where
  "gpt2_tokenizer =
     \<lparr>pad_token = None, eos_token = Some ''<|endoftext|>'',
      attrs = [''<|endoftext|>'', ''Hello'', '','', ''I'', ''am'']\<rparr>"

definition lfm2_tokenizer :: "string list tokenizer" where
  "lfm2_tokenizer =
     \<lparr>pad_token = Some ''<|pad|>'', eos_token = Some ''<|im_end|>'',
      attrs = [''<|pad|>'', ''<|im_end|>'', ''Hello'', '','', ''I'', ''am'']\<rparr>"

definition bare_tokenizer :: "string list tokenizer" where
  "bare_tokenizer = \<lparr>pad_token = None, eos_token = None, attrs = [''a'', ''b'']\<rparr>"

text \<open>Libraries where every call succeeds; the hub serves the tokenizer \<open>tok\<close>.\<close>

definition demo_libs :: "string list tokenizer \<Rightarrow> (string list, unit, nat) libs" where
  "demo_libs tok =
     \<lparr>import_packages = None,
      parse_args = (\<lambda>argv. Inr \<lparr>args_model_id = ''LiquidAI/LFM2-350M'',
                                 args_output_dir = ''./models/lfm2-350m-onnx'',
                                 args_verify = (''--verify'' \<in> set argv)\<rparr>),
      mkdir = (\<lambda>p. None),
      AutoTokenizer_from_pretrained = (\<lambda>model_id. Inr tok),
      tokenizer_save_pretrained = (\<lambda>t p. None),
      AutoModelForCausalLM_from_pretrained = (\<lambda>model_id dtype device_map trust. Inr ()),
      cuda_is_available = False,
      ORTModelForCausalLM_export = (\<lambda>model_id provider. Inr 350),
      onnx_save_pretrained = (\<lambda>m p. None),
      ORTModelForCausalLM_from_pretrained =
        (\<lambda>p d. case d of
                  None \<Rightarrow> Inl (Exn [''OSError''] ''no such directory'')
                | Some dir \<Rightarrow> (case model_artifact dir of
                                None \<Rightarrow> Inl (Exn [''OSError''] ''no model.onnx'')
                              | Some m \<Rightarrow> Inr m)),
      tokenizer_call = (\<lambda>t prompt. Inr [''input_ids'' \<mapsto> [[1, 2, 3, 4]]]),
      convert_tokens_to_ids = (\<lambda>t s. length (takeWhile (\<lambda>x. x \<noteq> s) (attrs t))),
      generate = (\<lambda>m input_ids kwargs. Inr [[1, 2, 3, 4, 0]]),
      decode = (\<lambda>t ids. Inr ''Hello, I am''),
      tokenizer_files = (\<lambda>t. [(''tokenizer.json'', File 393216)]),
      onnx_files = (\<lambda>m. [(''model.onnx'', File 5242880)]),
      stdout_write = (\<lambda>line. None)\<rparr>"


definition unsupported_architecture :: exn where
  "unsupported_architecture = Exn [''ValueError''] ''unsupported architecture''"

definition accelerate_missing :: exn where
  "accelerate_missing = Exn [''ImportError''] ''device_map requires accelerate''"

definition no_module_optimum :: exn where
  "no_module_optimum =
     Exn [''ModuleNotFoundError'', ''ImportError''] ''No module named optimum''"

definition no_package_metadata :: exn where
  "no_package_metadata =
     Exn [''PackageNotFoundError'', ''ModuleNotFoundError'', ''ImportError'']
       ''No package metadata was found for onnxruntime''"

definition shared_library_missing :: exn where
  "shared_library_missing =
     Exn [''OSError''] ''libcudart.so: cannot open shared object file''"


definition failing_export_libs :: "(string list, unit, nat) libs" where
  "failing_export_libs =
     (demo_libs gpt2_tokenizer)
       \<lparr>ORTModelForCausalLM_export := (\<lambda>model_id provider. Inl unsupported_architecture)\<rparr>"

definition failing_load_libs :: "(string list, unit, nat) libs" where
  "failing_load_libs =
     (demo_libs lfm2_tokenizer)
       \<lparr>AutoModelForCausalLM_from_pretrained :=
          (\<lambda>model_id dtype device_map trust. Inl accelerate_missing)\<rparr>"

definition unknown_model :: exn where
  "unknown_model = Exn [''OSError''] ''not a valid model identifier''"

definition unknown_model_libs :: "(string list, unit, nat) libs" where
  "unknown_model_libs =
     (demo_libs lfm2_tokenizer)
       \<lparr>AutoTokenizer_from_pretrained := (\<lambda>model_id. Inl unknown_model)\<rparr>"

definition missing_packages_libs :: "(string list, unit, nat) libs" where
  "missing_packages_libs = (demo_libs lfm2_tokenizer)\<lparr>import_packages := Some no_module_optimum\<rparr>"

definition missing_metadata_libs :: "(string list, unit, nat) libs" where
  "missing_metadata_libs =
     (demo_libs lfm2_tokenizer)\<lparr>import_packages := Some no_package_metadata\<rparr>"

definition broken_library_libs :: "(string list, unit, nat) libs" where
  "broken_library_libs =
     (demo_libs lfm2_tokenizer)\<lparr>import_packages := Some shared_library_missing\<rparr>"

definition fresh_world :: "(string list, nat) world" where
  "fresh_world = \<lparr>disk = Map.empty, trace = []\<rparr>"

definition exported_world :: "(string list, nat) world" where
  "exported_world =
     \<lparr>disk = [Path ''out'' \<mapsto>
               \<lparr>tokenizer_bundle = Some lfm2_tokenizer, model_artifact = Some 350,
                other_files = []\<rparr>],
      trace = []\<rparr>"


section \<open>Properties of \<^verbatim>\<open>get_dir_size\<close>\<close>

subsection \<open>Rounding\<close>

declare bit_length.simps [simp del]

lemma floor_rat_numeral_div:
  "\<lfloor>(numeral a :: rat) / numeral b\<rfloor> = numeral a div numeral b"
  by (metis floor_divide_of_int_eq of_int_numeral)

lemma ceiling_rat_numeral_div:
  "\<lceil>(numeral a :: rat) / numeral b\<rceil> = - ((- numeral a) div numeral b)"
proof -
  have "\<lfloor>- ((numeral a :: rat) / numeral b)\<rfloor> = (- numeral a) div numeral b"
    by (metis floor_divide_of_int_eq of_int_numeral of_int_minus minus_divide_left)
  then show ?thesis by (simp add: ceiling_def)
qed

lemma bit_length_le: "n < 2 ^ w \<Longrightarrow> bit_length n \<le> w"
proof (induction n arbitrary: w rule: bit_length.induct)
  case (1 n)
  show ?case
  proof (cases "n = 0")
    case True
    then show ?thesis by (simp add: bit_length.simps)
  next
    case False
    with "1.prems" obtain v where w: "w = Suc v"
      by (cases w) auto
    with "1.prems" have "n div 2 < 2 ^ v" by auto
    with "1.IH" [OF False] have "bit_length (n div 2) \<le> v" .
    with False w show ?thesis by (simp add: bit_length.simps [of n])
  qed
qed

lemma bit_length_lower: "0 < n \<Longrightarrow> 2 ^ (bit_length n - 1) \<le> n"
proof (induction n rule: bit_length.induct)
  case (1 n)
  show ?case
  proof (cases "n div 2 = 0")
    case True
    with "1.prems" show ?thesis
      by (simp add: bit_length.simps [of n] bit_length.simps [of 0])
  next
    case False
    with "1.IH" "1.prems" have ih: "2 ^ (bit_length (n div 2) - 1) \<le> n div 2" by simp
    from False have "0 < bit_length (n div 2)"
      by (simp add: bit_length.simps [of "n div 2"])
    then have "bit_length n - 1 = Suc (bit_length (n div 2) - 1)"
      using "1.prems" by (simp add: bit_length.simps [of n])
    with ih show ?thesis by simp
  qed
qed

lemma round_half_even_of_int [simp]: "round_half_even (of_int k) = k"
  by (simp add: round_half_even_def)

lemma round_half_even_near: "\<bar>of_int (round_half_even s) - s\<bar> \<le> 1 / 2"
proof -
  have "of_int \<lfloor>s\<rfloor> \<le> s" "s < of_int \<lfloor>s\<rfloor> + 1" by linarith+
  then show ?thesis by (auto simp: round_half_even_def Let_def)
qed

lemma round_half_even_nonneg: "0 \<le> s \<Longrightarrow> 0 \<le> round_half_even s"
  by (simp add: round_half_even_def Let_def)

lemma ulp_pos: "0 < ulp x"
  by (simp add: ulp_def)

lemma ulp_le: "0 < x \<Longrightarrow> ulp x \<le> max 1 x"
proof (cases "1 \<le> x")
  case True
  then have n: "0 < nat \<lfloor>x\<rfloor>" by simp
  have "(2::rat) ^ (bit_length (nat \<lfloor>x\<rfloor>) - 1) / 2 ^ 52
      \<le> 2 ^ (bit_length (nat \<lfloor>x\<rfloor>) - 1)"
    by (simp add: divide_le_eq)
  also have "\<dots> = of_nat (2 ^ (bit_length (nat \<lfloor>x\<rfloor>) - 1))" by simp
  also have "\<dots> \<le> of_nat (nat \<lfloor>x\<rfloor>)"
    using bit_length_lower [OF n] by (simp only: of_nat_le_iff)
  also have "\<dots> \<le> x" using True by simp
  finally show ?thesis using True by (simp add: ulp_def)
next
  case False
  have "(1::rat) / 2 ^ (min (bit_length (nat (\<lceil>1 / x\<rceil> - 1))) 1022 + 52) \<le> 1"
    by (simp add: divide_le_eq)
  with False show ?thesis by (simp add: ulp_def)
qed

lemma b64_nonneg: "0 \<le> x \<Longrightarrow> 0 \<le> b64 x"
  using ulp_pos [of x]
  by (auto simp: b64_def intro!: mult_nonneg_nonneg round_half_even_nonneg divide_nonneg_pos
      simp: less_le)

lemma b64_upper: assumes "0 \<le> x" shows "b64 x \<le> 2 * x + 1"
proof (cases "x = 0")
  case True
  then show ?thesis by (simp add: b64_def)
next
  case False
  with assms have x: "0 < x" by simp
  have "of_int (round_half_even (x / ulp x)) \<le> x / ulp x + 1 / 2"
    using round_half_even_near [of "x / ulp x"] by linarith
  then have "of_int (round_half_even (x / ulp x)) * ulp x \<le> (x / ulp x + 1 / 2) * ulp x"
    using ulp_pos [of x] by (simp add: mult_right_mono)
  also have "\<dots> = x + ulp x / 2"
    using ulp_pos [of x] by (simp add: distrib_right)
  also have "\<dots> \<le> x + max 1 x"
    using ulp_le [OF x] by linarith
  also have "\<dots> \<le> 2 * x + 1" using x by simp
  finally show ?thesis using x by (simp add: b64_def)
qed

text \<open>A quotient by \<open>2 ^ 20\<close> of fewer than 53 bits is a binary64 number.\<close>

lemma b64_exact_megabytes:
  assumes "t < 2 ^ 53"
  shows "b64 (of_nat t / (1024 * 1024)) = of_nat t / (1024 * 1024)"
proof (cases "t = 0")
  case True
  then show ?thesis by (simp add: b64_def)
next
  case False
  define x :: rat where "x = of_nat t / (1024 * 1024)"
  have x: "0 < x" using False by (simp add: x_def)
  have p20: "(1024 * 1024 :: rat) = 2 ^ 20" by simp
  have "\<exists>k::int. x / ulp x = of_int k"
  proof (cases "1 \<le> x")
    case True
    define b where "b = bit_length (nat \<lfloor>x\<rfloor>)"
    have "\<lfloor>x\<rfloor> = int (t div 2 ^ 20)"
      unfolding x_def p20 by (metis floor_divide_of_nat_eq of_nat_numeral of_nat_power)
    moreover have "t div 2 ^ 20 < 2 ^ 33"
      using assms by (simp add: less_mult_imp_div_less)
    ultimately have "nat \<lfloor>x\<rfloor> < 2 ^ 33" by simp
    then have b: "b \<le> 33" unfolding b_def by (rule bit_length_le)
    have u: "ulp x = 2 ^ (b - 1) / 2 ^ 52"
      using True by (simp add: ulp_def b_def)
    define A :: rat where "A = 2 ^ (b - 1)"
    define B :: rat where "B = 2 ^ (32 - (b - 1))"
    have "A * B = 2 ^ (b - 1 + (32 - (b - 1)))"
      unfolding A_def B_def by (simp only: power_add)
    also have "b - 1 + (32 - (b - 1)) = 32" using b by simp
    finally have AB: "A * B = 4294967296" by simp
    have A: "A \<noteq> 0" by (simp add: A_def)
    have "x / ulp x = x * 4503599627370496 / A"
      by (simp add: u A_def)
    also have "\<dots> = of_nat t * (4294967296 / A)"
      by (simp add: x_def)
    also have "4294967296 / A = B"
      using A AB by (simp add: field_simps)
    finally have "x / ulp x = of_nat t * 2 ^ (32 - (b - 1))"
      by (simp add: B_def)
    also have "\<dots> = of_int (int (t * 2 ^ (32 - (b - 1))))" by simp
    finally show ?thesis by blast
  next
    case False
    define m where "m = min (bit_length (nat (\<lceil>1 / x\<rceil> - 1))) 1022"
    have u: "ulp x = 1 / 2 ^ (m + 52)"
      using False by (simp add: ulp_def m_def)
    have "x / ulp x = x * (2 ^ m * 4503599627370496)"
      by (simp add: u power_add)
    also have "\<dots> = of_nat t * (2 ^ m * 4294967296)"
      by (simp add: x_def)
    finally have "x / ulp x = of_nat t * 2 ^ (m + 32)"
      by (simp add: power_add)
    also have "\<dots> = of_int (int (t * 2 ^ (m + 32)))" by simp
    finally show ?thesis by blast
  qed
  then obtain k :: int where k: "x / ulp x = of_int k" by blast
  then have "of_int k * ulp x = x"
    using ulp_pos [of x] by (simp add: field_simps)
  with x k have "b64 x = x"
    by (simp add: b64_def)
  then show ?thesis
    by (simp only: x_def)
qed

lemma dec_round_nonneg: "0 \<le> x \<Longrightarrow> 0 \<le> dec_round x n"
  by (simp add: dec_round_def round_half_even_nonneg)

lemma dec_round_near: "\<bar>dec_round x n - x\<bar> \<le> 1 / (2 * 10 ^ n)"
proof -
  define k where "k = round_half_even (x * 10 ^ n)"
  have p: "(0::rat) < 10 ^ n" by simp
  have "\<bar>of_int k - x * 10 ^ n\<bar> \<le> 1 / 2"
    unfolding k_def by (rule round_half_even_near)
  then have "\<bar>of_int k - x * 10 ^ n\<bar> / 10 ^ n \<le> (1 / 2) / 10 ^ n"
    using p by (intro divide_right_mono) simp_all
  moreover have "\<bar>of_int k - x * 10 ^ n\<bar> / 10 ^ n = \<bar>of_int k / 10 ^ n - x\<bar>"
  proof -
    have "of_int k / 10 ^ n - x = (of_int k - x * 10 ^ n) / 10 ^ n"
      by (simp add: diff_divide_distrib)
    then show ?thesis using p by (simp add: abs_divide del: of_int_diff)
  qed
  ultimately show ?thesis by (simp add: dec_round_def k_def)
qed

lemma truediv_exact_megabytes:
  assumes "t < 2 ^ 53"
  shows "truediv t (1024 * 1024) = Inr (of_nat t / (1024 * 1024))"
proof -
  have "of_nat t < (2 ^ 53 :: rat)"
    using assms by (metis of_nat_less_iff of_nat_numeral of_nat_power)
  then have "of_nat t / (1024 * 1024) < (2 ^ 1024 :: rat)"
    by (simp add: divide_less_eq)
  moreover have "b64 (of_nat t / of_nat (1024 * 1024)) = of_nat t / (1024 * 1024)"
    using b64_exact_megabytes [OF assms] by simp
  ultimately show ?thesis
    unfolding truediv_def Let_def by (simp add: not_le)
qed

subsection \<open>The walk and the loop\<close>

lemma file_size_is_file:
  "is_file f = Inr True \<Longrightarrow> st_size f = Inr n \<Longrightarrow> file_size f = n"
  "is_file f = Inr False \<Longrightarrow> file_size f = 0"
  by (induction f) simp_all

lemma counted_simps:
  "counted [] = 0"
  "counted (f # fs) = file_size f + counted fs"
  "counted (fs @ gs) = counted fs + counted gs"
  by (simp_all add: counted_def)

lemma total_size_loop_returns:
  "list_all can_inspect fs \<Longrightarrow> total_size_loop fs tot = Inr (tot + counted fs)"
proof (induction fs arbitrary: tot)
  case Nil
  show ?case by (simp add: counted_simps)
next
  case (Cons f fs)
  then show ?case
    by (auto simp: can_inspect_def counted_simps file_size_is_file
        split: sum.splits bool.splits)
qed

lemma total_size_loop_returned:
  "total_size_loop fs tot = Inr t \<Longrightarrow> list_all can_inspect fs \<and> t = tot + counted fs"
proof (induction fs arbitrary: tot)
  case Nil
  then show ?case by (simp add: counted_simps)
next
  case (Cons f fs)
  show ?case
  proof (cases "is_file f")
    case (Inl e)
    with Cons.prems show ?thesis by simp
  next
    case (Inr b)
    show ?thesis
    proof (cases b)
      case True
      with Inr Cons.prems obtain n where n: "st_size f = Inr n"
        and rest: "total_size_loop fs (tot + n) = Inr t"
        by (cases "st_size f") auto
      from Cons.IH [OF rest] Inr True n show ?thesis
        by (simp add: can_inspect_def counted_simps file_size_is_file)
    next
      case False
      with Inr Cons.prems have rest: "total_size_loop fs tot = Inr t" by simp
      from Cons.IH [OF rest] Inr False show ?thesis
        by (simp add: can_inspect_def counted_simps file_size_is_file)
    qed
  qed
qed

lemma counted_denied: "counted (map (\<lambda>child. Denied) children) = 0"
  by (induction children) (simp_all add: counted_simps)

lemma counted_entry_and_below:
  "file_size c + counted (below c) = regular_total c + linked_total c"
proof (induction c rule: below.induct)
  case (1 children)
  have "counted (map snd cs) + counted (concat (map (\<lambda>(name, child). below child) cs)) =
        sum_list (map (\<lambda>(name, child). regular_total child) cs)
        + sum_list (map (\<lambda>(name, child). linked_total child) cs)"
    if "set cs \<subseteq> set children" for cs
    using that
  proof (induction cs)
    case Nil
    show ?case by (simp add: counted_simps)
  next
    case (Cons c cs)
    obtain name child where c: "c = (name, child)" by (cases c)
    with Cons.prems have "(name, child) \<in> set children" by simp
    then have "file_size child + counted (below child) = regular_total child + linked_total child"
      using "1.IH" by blast
    with Cons c show ?case by (simp add: counted_simps)
  qed
  then show ?case by (simp add: counted_simps)
qed (simp_all add: counted_simps counted_denied)

lemma counted_rglob:
  "rglob path = Inr found \<Longrightarrow>
     counted found = regular_files_under path + linked_files_under path"
proof (induction path arbitrary: found rule: rglob.induct)
  case (1 a children)
  have "file_size (Dir a children) + counted (below (Dir a children)) =
      regular_total (Dir a children) + linked_total (Dir a children)"
    by (rule counted_entry_and_below)
  with 1 show ?case by auto
qed (auto simp: counted_simps)

text \<open>
  Claim C5, as the code has it. \<^verbatim>\<open>get_dir_size\<close> walks the directory and adds up the sizes
  of the entries that \<^verbatim>\<open>is_file()\<close> accepts: the regular files in the directories it can
  list, and the files that the symbolic links found there resolve to. When it returns,
  the result is non-negative and is that total divided by \<open>1024 * 1024\<close> and rounded to
  two decimals, both in binary64 (the division is exact below \<open>2 ^ 53\<close> bytes, and then the
  decimal is within \<open>0.005\<close> of the quotient): megabytes, not the sum itself. It returns
  when every entry met can be inspected (and the total is below \<open>2 ^ 1000\<close>), and raises
  when one cannot.
\<close>

theorem get_dir_size_is_rounded_megabytes:
  "(get_dir_size path = Inr mb \<longrightarrow>
      0 \<le> mb
    \<and> mb = b64 (dec_round (b64 (of_nat (regular_files_under path + linked_files_under path)
                / (1024 * 1024))) 2)
    \<and> (regular_files_under path + linked_files_under path < 2 ^ 53 \<longrightarrow>
         mb = b64 (dec_round (of_nat (regular_files_under path + linked_files_under path)
                / (1024 * 1024)) 2)
       \<and> \<bar>dec_round (of_nat (regular_files_under path + linked_files_under path)
                / (1024 * 1024)) 2
           - of_nat (regular_files_under path + linked_files_under path) / (1024 * 1024)\<bar>
           \<le> 1 / 200))
   \<and> (inspectable path \<and> regular_files_under path + linked_files_under path < 2 ^ 1000 \<longrightarrow>
        (\<exists>x. get_dir_size path = Inr x))
   \<and> (\<not> inspectable path \<longrightarrow> (\<exists>e. get_dir_size path = Inl e))"
proof (intro conjI impI)
  define tot where "tot = regular_files_under path + linked_files_under path"
  define q :: rat where "q = b64 (of_nat tot / (1024 * 1024))"
  have q0: "0 \<le> q" unfolding q_def by (rule b64_nonneg) simp
  {
    assume r: "get_dir_size path = Inr mb"
    then obtain found where found: "rglob path = Inr found"
      by (auto simp: get_dir_size_def split: sum.splits)
    with r obtain t where t: "total_size_loop found 0 = Inr t"
      by (auto simp: get_dir_size_def split: sum.splits)
    from total_size_loop_returned [OF t] counted_rglob [OF found]
    have tt: "t = tot" by (simp add: tot_def)
    have qq: "b64 (of_nat tot / of_nat (1024 * 1024)) = q"
      by (simp add: q_def)
    have "truediv tot (1024 * 1024) = Inr q \<or> (\<exists>e. truediv tot (1024 * 1024) = Inl e)"
      unfolding truediv_def Let_def qq by simp
    with r found t have "truediv tot (1024 * 1024) = Inr q \<and> py_round q 2 = Inr mb"
      by (auto simp: get_dir_size_def tt split: sum.splits)
    then have mb: "mb = b64 (dec_round q 2)"
      by (auto simp: py_round_def Let_def split: if_splits)
    show "0 \<le> mb"
      unfolding mb by (intro b64_nonneg dec_round_nonneg q0)
    show "mb = b64 (dec_round (b64 (of_nat (regular_files_under path + linked_files_under path)
                / (1024 * 1024))) 2)"
      using mb by (simp add: q_def tot_def)
    {
      assume "regular_files_under path + linked_files_under path < 2 ^ 53"
      then have "q = of_nat tot / (1024 * 1024)"
        unfolding q_def tot_def by (rule b64_exact_megabytes)
      with mb show "mb = b64 (dec_round (of_nat (regular_files_under path
          + linked_files_under path) / (1024 * 1024)) 2)"
        by (simp add: tot_def)
    }
  }
  show "\<bar>dec_round (of_nat (regular_files_under path + linked_files_under path)
                / (1024 * 1024)) 2
           - of_nat (regular_files_under path + linked_files_under path) / (1024 * 1024)\<bar>
           \<le> 1 / 200"
    using dec_round_near [of "of_nat (regular_files_under path + linked_files_under path)
                / (1024 * 1024)" 2]
    by simp
  {
    assume a: "inspectable path
      \<and> regular_files_under path + linked_files_under path < 2 ^ 1000"
    then obtain found where found: "rglob path = Inr found"
      and ok: "list_all can_inspect found"
      by (auto simp: inspectable_def split: sum.splits)
    have t: "total_size_loop found 0 = Inr tot"
      using total_size_loop_returns [OF ok, of 0] counted_rglob [OF found]
      by (simp add: tot_def)
    from a have "of_nat tot < (2 ^ 1000 :: rat)"
      unfolding tot_def by (metis of_nat_less_iff of_nat_numeral of_nat_power)
    then have "of_nat tot / (1024 * 1024) < (2 ^ 980 :: rat)"
      by (simp add: divide_less_eq)
    moreover have "q \<le> 2 * (of_nat tot / (1024 * 1024)) + 1"
      unfolding q_def by (rule b64_upper) simp
    ultimately have q1: "q < 2 ^ 982" by simp
    have "\<bar>dec_round q 2 - q\<bar> \<le> 1 / 200"
      using dec_round_near [of q 2] by simp
    then have "dec_round q 2 \<le> q + 1 / 200"
      by linarith
    moreover have "b64 (dec_round q 2) \<le> 2 * dec_round q 2 + 1"
      by (intro b64_upper dec_round_nonneg q0)
    ultimately have d1: "b64 (dec_round q 2) < 2 ^ 1024"
      using q1 by simp
    have d0: "0 \<le> b64 (dec_round q 2)"
      by (intro b64_nonneg dec_round_nonneg q0)
    have "b64 (of_nat tot / of_nat (1024 * 1024)) = q"
      by (simp add: q_def)
    then have "truediv tot (1024 * 1024) = Inr q"
      unfolding truediv_def Let_def using q1 by (simp add: not_le)
    moreover have "py_round q 2 = Inr (b64 (dec_round q 2))"
      using d0 d1 by (simp add: py_round_def Let_def not_le)
    ultimately show "\<exists>x. get_dir_size path = Inr x"
      by (simp add: get_dir_size_def found t)
  }
  {
    assume n: "\<not> inspectable path"
    show "\<exists>e. get_dir_size path = Inl e"
    proof (cases "rglob path")
      case (Inl e)
      then show ?thesis by (simp add: get_dir_size_def)
    next
      case (Inr found)
      with n have "\<not> list_all can_inspect found"
        by (simp add: inspectable_def)
      then have "\<exists>e. total_size_loop found 0 = Inl e"
        using total_size_loop_returned [of found 0]
        by (cases "total_size_loop found 0") auto
      with Inr show ?thesis by (auto simp: get_dir_size_def)
    qed
  }
qed

lemma get_dir_size_below_2_53:
  assumes "inspectable path"
    and "regular_files_under path + linked_files_under path < 2 ^ 53"
  shows "get_dir_size path =
           Inr (b64 (dec_round (of_nat (regular_files_under path + linked_files_under path)
                  / (1024 * 1024)) 2))"
proof -
  define tot where "tot = regular_files_under path + linked_files_under path"
  define q :: rat where "q = of_nat tot / (1024 * 1024)"
  from assms(1) obtain found where found: "rglob path = Inr found"
    and ok: "list_all can_inspect found"
    by (auto simp: inspectable_def split: sum.splits)
  have t: "total_size_loop found 0 = Inr tot"
    using total_size_loop_returns [OF ok, of 0] counted_rglob [OF found]
    by (simp add: tot_def)
  have d: "truediv tot (1024 * 1024) = Inr q"
    unfolding q_def using assms(2) by (intro truediv_exact_megabytes) (simp add: tot_def)
  have "of_nat tot < (2 ^ 53 :: rat)"
    using assms(2) unfolding tot_def by (metis of_nat_less_iff of_nat_numeral of_nat_power)
  then have q1: "q < 2 ^ 33" and q0: "0 \<le> q"
    by (simp_all add: q_def divide_less_eq)
  have "\<bar>dec_round q 2 - q\<bar> \<le> 1 / 200"
    using dec_round_near [of q 2] by simp
  then have "dec_round q 2 \<le> q + 1 / 200" by linarith
  moreover have "b64 (dec_round q 2) \<le> 2 * dec_round q 2 + 1"
    by (intro b64_upper dec_round_nonneg q0)
  ultimately have d1: "b64 (dec_round q 2) < 2 ^ 1024"
    using q1 by simp
  have d0: "0 \<le> b64 (dec_round q 2)"
    by (intro b64_nonneg dec_round_nonneg q0)
  have r: "py_round q 2 = Inr (b64 (dec_round q 2))"
    using d0 d1 by (simp add: py_round_def Let_def not_le)
  have "get_dir_size path = Inr (b64 (dec_round q 2))"
    by (simp only: get_dir_size_def found t d r sum.case)
  then show ?thesis
    by (simp only: q_def tot_def)
qed

lemmas round_eval =
  dec_round_def round_half_even_def Let_def floor_rat_numeral_div

text \<open>
  The statement at a directory with a 384 KiB file, a 5 MiB file one level down, a
  special entry, a directory that cannot be listed, a link to a directory and a dangling
  link: 5.375 MiB are counted and reported as 5.38. At a directory with a 5000-byte file
  and a link to a file of 1 MiB elsewhere, the link's target is counted: 1.0 is
  reported, where the regular files under the directory alone would give 0.0.
\<close>

theorem get_dir_size_is_rounded_megabytes_witness:
  "inspectable sample_dir
   \<and> regular_files_under sample_dir + linked_files_under sample_dir = 5636096
   \<and> get_dir_size sample_dir = Inr (b64 (269 / 50))
   \<and> inspectable linked_dir
   \<and> regular_files_under linked_dir = 5000
   \<and> linked_files_under linked_dir = 1048576
   \<and> get_dir_size linked_dir = Inr (b64 1)
   \<and> \<not> inspectable unsearchable_dir
   \<and> get_dir_size unsearchable_dir = Inl PermissionError"
proof -
  have s: "inspectable sample_dir"
    "regular_files_under sample_dir + linked_files_under sample_dir = 5636096"
    by (simp_all add: sample_dir_def inspectable_def can_inspect_def)
  have l: "inspectable linked_dir" "regular_files_under linked_dir = 5000"
    "linked_files_under linked_dir = 1048576"
    by (simp_all add: linked_dir_def inspectable_def can_inspect_def)
  have u: "\<not> inspectable unsearchable_dir"
    by (simp add: unsearchable_dir_def inspectable_def can_inspect_def)
  from get_dir_size_is_rounded_megabytes [of sample_dir] s
  obtain x where x: "get_dir_size sample_dir = Inr x" by auto
  from get_dir_size_is_rounded_megabytes [of sample_dir x] x s
  have "x = b64 (dec_round (5636096 / (1024 * 1024)) 2)" by simp
  also have "dec_round (5636096 / (1024 * 1024)) 2 = 269 / 50"
    by (simp add: round_eval)
  finally have sx: "get_dir_size sample_dir = Inr (b64 (269 / 50))"
    using x by simp
  from get_dir_size_is_rounded_megabytes [of linked_dir] l
  obtain y where y: "get_dir_size linked_dir = Inr y" by auto
  from get_dir_size_is_rounded_megabytes [of linked_dir y] y l
  have "y = b64 (dec_round (1053576 / (1024 * 1024)) 2)" by simp
  also have "dec_round (1053576 / (1024 * 1024)) 2 = 1"
    by (simp add: round_eval)
  finally have ly: "get_dir_size linked_dir = Inr (b64 1)"
    using y by simp
  from get_dir_size_is_rounded_megabytes [of unsearchable_dir] u
  obtain e where e: "get_dir_size unsearchable_dir = Inl e" by auto
  then have "get_dir_size unsearchable_dir = Inl PermissionError"
    by (simp add: get_dir_size_def unsearchable_dir_def)
  with s l u sx ly show ?thesis by simp
qed

text \<open>
  Claim C5 as it is worded (the reported number equals the sum of the file sizes) fails
  at a directory that holds one file of one byte: the sum is 1 and the report is 0.
\<close>

theorem get_dir_size_not_byte_sum_counterexample:
  "regular_files_under one_byte_dir = 1
   \<and> get_dir_size one_byte_dir = Inr 0
   \<and> get_dir_size one_byte_dir \<noteq> Inr (of_nat (regular_files_under one_byte_dir))"
proof -
  have i: "inspectable one_byte_dir"
    and t: "regular_files_under one_byte_dir + linked_files_under one_byte_dir = 1"
    and r: "regular_files_under one_byte_dir = 1"
    by (simp_all add: one_byte_dir_def inspectable_def can_inspect_def)
  from get_dir_size_below_2_53 [OF i] t
  have "get_dir_size one_byte_dir = Inr (b64 (dec_round (1 / (1024 * 1024)) 2))"
    by simp
  also have "dec_round (1 / (1024 * 1024)) 2 = 0"
    by (simp add: round_eval)
  finally have "get_dir_size one_byte_dir = Inr 0"
    by (simp add: b64_def)
  with r show ?thesis by simp
qed

section \<open>Properties of the workflow\<close>

subsection \<open>Effects of the steps\<close>

lemma emit_simps [simp]:
  "trace (emit ev w) = trace w @ [ev]"
  "disk (emit ev w) = disk w"
  by (simp_all add: emit_def)

lemma dir_at_emit [simp]: "dir_at (emit ev w) p = dir_at w p"
  by (simp add: dir_at_def)

lemma dir_at_trace_update [simp]: "dir_at (w\<lparr>trace := t\<rparr>) p = dir_at w p"
  by (simp add: dir_at_def)

lemma emit_as_update: "emit ev w = w\<lparr>trace := trace w @ [ev]\<rparr>"
  by (simp add: emit_def)

text \<open>
  Printing appends the lines before the first one that cannot be written, and ends with
  what writing that line raised.
\<close>

lemma print_lines_effect:
  "print_lines libs ls w =
     ((case print_failure libs ls of None \<Rightarrow> Inr () | Some e \<Rightarrow> Inl e),
      w\<lparr>trace := trace w @ map Print (printed libs ls)\<rparr>)"
  by (induction ls arbitrary: w) (simp_all add: emit_def split: option.splits)

lemma printed_all: "print_failure libs ls = None \<Longrightarrow> printed libs ls = ls"
  by (induction ls) (simp_all split: option.splits)

lemma print_failure_never:
  "stdout_write libs = (\<lambda>line. None) \<Longrightarrow> print_failure libs ls = None"
  by (induction ls) simp_all

lemma print_lines_never_raises:
  "stdout_write libs = (\<lambda>line. None) \<Longrightarrow>
     print_lines libs ls w = (Inr (), w\<lparr>trace := trace w @ map Print ls\<rparr>)"
  by (simp add: print_lines_effect print_failure_never printed_all)


lemma usage_lines_length: "length (usage_lines p) = 20"
  by (simp add: usage_lines_def)


lemma filter_is_Print_map_Print [simp]: "filter is_Print (map Print ls) = map Print ls"
  by (induction ls) simp_all

lemma new_events_append [simp]: "new_events w (w0\<lparr>trace := trace w @ new\<rparr>) = new"
  by (simp add: new_events_def)

lemma trace_update_eq [simp]: "(w\<lparr>trace := a\<rparr> = w\<lparr>trace := b\<rparr>) \<longleftrightarrow> a = b"
  by (auto dest: arg_cong [where f = trace])

text \<open>Verification only appends to the trace, starting with the reload call.\<close>

lemma verify_export_try_effect:
  "\<exists>r new. verify_export_try libs p tok w = (r, w\<lparr>trace := trace w @ Call ORTModel_reload # new\<rparr>)
     \<and> \<not> list_ex is_Print new \<and> Log INFO ExportCompleted \<notin> set new
     \<and> (\<forall>e. Log WARNING (VerificationFailed e) \<notin> set new)"
  unfolding verify_export_try_def Let_def
  by (auto simp: emit_as_update split: sum.splits option.splits list.splits)

lemma verify_export_effect:
  "\<exists>new. verify_export libs p tok w =
       (Inr (), w\<lparr>trace := trace w @ Call ORTModel_reload # new\<rparr>)
     \<and> \<not> list_ex is_Print new \<and> Log INFO ExportCompleted \<notin> set new"
proof -
  obtain r new where t: "verify_export_try libs p tok w =
      (r, w\<lparr>trace := trace w @ Call ORTModel_reload # new\<rparr>)"
    and n: "\<not> list_ex is_Print new" "Log INFO ExportCompleted \<notin> set new"
    using verify_export_try_effect [of libs p tok w] by blast
  show ?thesis
  proof (cases r)
    case (Inl e)
    with t n show ?thesis
      by (simp add: verify_export_def Let_def emit_as_update)
  next
    case (Inr u)
    with t n show ?thesis
      by (simp add: verify_export_def)
  qed
qed


text \<open>
  The ways \<open>convert_and_report\<close> ends: the export raises, the save raises, or both
  succeed and the report follows whatever verification did; the report ends with what
  measuring the directory raises, or with what printing does.
\<close>

lemma convert_and_report_export_raises:
  assumes "ORTModelForCausalLM_export libs model_id
             (if cuda_is_available libs then CUDAExecutionProvider else CPUExecutionProvider) = Inl e"
  shows "convert_and_report libs model_id p tok w =
           (Inl e, w\<lparr>trace := trace w @ [Log INFO ExportingToONNX, Call ORTModel_export]\<rparr>)"
  unfolding convert_and_report_def Let_def
  by (simp add: assms emit_as_update del: if_split)

lemma convert_and_report_save_raises:
  assumes "ORTModelForCausalLM_export libs model_id
             (if cuda_is_available libs then CUDAExecutionProvider else CPUExecutionProvider) = Inr m"
    and "onnx_save_pretrained libs m p = Some e"
  shows "convert_and_report libs model_id p tok w =
           (Inl e, w\<lparr>trace := trace w @
              [Log INFO ExportingToONNX, Call ORTModel_export, Call ORTModel_save]\<rparr>)"
  unfolding convert_and_report_def Let_def
  by (simp add: assms emit_as_update del: if_split)

lemma convert_and_report_reports:
  assumes "ORTModelForCausalLM_export libs model_id
             (if cuda_is_available libs then CUDAExecutionProvider else CPUExecutionProvider) = Inr m"
    and "onnx_save_pretrained libs m p = None"
  shows "\<exists>new. convert_and_report libs model_id p tok w =
           (case get_dir_size (directory_tree libs ((dir_at w p)\<lparr>model_artifact := Some m\<rparr>)) of
              Inl e \<Rightarrow>
                (Inl e, w\<lparr>disk := (disk w)(p \<mapsto> (dir_at w p)\<lparr>model_artifact := Some m\<rparr>),
                      trace := trace w @
                  [Log INFO ExportingToONNX, Call ORTModel_export, Call ORTModel_save,
                   Log INFO (ONNXModelSavedTo p), Log INFO VerifyingExport, Call ORTModel_reload]
                  @ new @ [Log INFO ExportCompleted, Log INFO (ModelSavedTo p)]\<rparr>)
            | Inr megabytes \<Rightarrow>
                ((case print_failure libs (usage_lines p) of None \<Rightarrow> Inr () | Some e \<Rightarrow> Inl e),
                 w\<lparr>disk := (disk w)(p \<mapsto> (dir_at w p)\<lparr>model_artifact := Some m\<rparr>),
                      trace := trace w @
                  [Log INFO ExportingToONNX, Call ORTModel_export, Call ORTModel_save,
                   Log INFO (ONNXModelSavedTo p), Log INFO VerifyingExport, Call ORTModel_reload]
                  @ new @
                  [Log INFO ExportCompleted, Log INFO (ModelSavedTo p),
                   Log INFO (ModelSizeMB megabytes)]
                  @ map Print (printed libs (usage_lines p))\<rparr>))
         \<and> \<not> list_ex is_Print new \<and> Log INFO ExportCompleted \<notin> set new"
proof -
  define wv where "wv = emit (Log INFO VerifyingExport) (emit (Log INFO (ONNXModelSavedTo p))
    ((emit (Call ORTModel_save) (emit (Call ORTModel_export) (emit (Log INFO ExportingToONNX) w)))
      \<lparr>disk := (disk w)(p \<mapsto> (dir_at w p)\<lparr>model_artifact := Some m\<rparr>)\<rparr>))"
  obtain new where v: "verify_export libs p tok wv =
       (Inr (), wv\<lparr>trace := trace wv @ Call ORTModel_reload # new\<rparr>)"
    and n: "\<not> list_ex is_Print new" "Log INFO ExportCompleted \<notin> set new"
    using verify_export_effect [of libs p tok wv] by blast
  define wr where "wr = emit (Log INFO (ModelSavedTo p)) (emit (Log INFO ExportCompleted)
          (wv\<lparr>trace := trace wv @ Call ORTModel_reload # new\<rparr>))"
  have d: "dir_at wr p = (dir_at w p)\<lparr>model_artifact := Some m\<rparr>"
    by (simp add: wr_def wv_def dir_at_def)
  have "convert_and_report libs model_id p tok w =
      (case get_dir_size (directory_tree libs (dir_at wr p)) of
         Inl e \<Rightarrow> (Inl e, wr)
       | Inr megabytes \<Rightarrow>
           print_usage_instructions libs p (emit (Log INFO (ModelSizeMB megabytes)) wr))"
    unfolding convert_and_report_def Let_def wr_def
    by (simp add: assms v [unfolded wv_def] wv_def split: sum.splits del: if_split)
  also have "\<dots> =
           (case get_dir_size (directory_tree libs ((dir_at w p)\<lparr>model_artifact := Some m\<rparr>)) of
              Inl e \<Rightarrow>
                (Inl e, w\<lparr>disk := (disk w)(p \<mapsto> (dir_at w p)\<lparr>model_artifact := Some m\<rparr>),
                      trace := trace w @
                  [Log INFO ExportingToONNX, Call ORTModel_export, Call ORTModel_save,
                   Log INFO (ONNXModelSavedTo p), Log INFO VerifyingExport, Call ORTModel_reload]
                  @ new @ [Log INFO ExportCompleted, Log INFO (ModelSavedTo p)]\<rparr>)
            | Inr megabytes \<Rightarrow>
                ((case print_failure libs (usage_lines p) of None \<Rightarrow> Inr () | Some e \<Rightarrow> Inl e),
                 w\<lparr>disk := (disk w)(p \<mapsto> (dir_at w p)\<lparr>model_artifact := Some m\<rparr>),
                      trace := trace w @
                  [Log INFO ExportingToONNX, Call ORTModel_export, Call ORTModel_save,
                   Log INFO (ONNXModelSavedTo p), Log INFO VerifyingExport, Call ORTModel_reload]
                  @ new @
                  [Log INFO ExportCompleted, Log INFO (ModelSavedTo p),
                   Log INFO (ModelSizeMB megabytes)]
                  @ map Print (printed libs (usage_lines p))\<rparr>))"
    unfolding d
    by (simp add: wr_def wv_def print_usage_instructions_def print_lines_effect emit_as_update
        split: sum.splits)
  finally show ?thesis using n by blast
qed
text \<open>The three ways \<open>load_and_save_tokenizer\<close> ends.\<close>

lemma load_and_save_tokenizer_load_raises:
  assumes "AutoTokenizer_from_pretrained libs model_id = Inl e"
  shows "load_and_save_tokenizer libs model_id p w =
           (Inl e, w\<lparr>trace := trace w @ [Log INFO LoadingTokenizer, Call AutoTokenizer_load]\<rparr>)"
  unfolding load_and_save_tokenizer_def Let_def
  by (simp add: assms emit_as_update)

lemma load_and_save_tokenizer_save_raises:
  assumes "AutoTokenizer_from_pretrained libs model_id = Inr tok"
    and "saved = (if pad_token tok = None then tok\<lparr>pad_token := eos_token tok\<rparr> else tok)"
    and "tokenizer_save_pretrained libs saved p = Some e"
  shows "load_and_save_tokenizer libs model_id p w =
           (Inl e, w\<lparr>trace := trace w @
              [Log INFO LoadingTokenizer, Call AutoTokenizer_load, Call Tokenizer_save]\<rparr>)"
  unfolding load_and_save_tokenizer_def Let_def
  by (simp add: assms(1) assms(2) [symmetric] assms(3) emit_as_update del: if_split)

lemma load_and_save_tokenizer_succeeds:
  assumes "AutoTokenizer_from_pretrained libs model_id = Inr tok"
    and "saved = (if pad_token tok = None then tok\<lparr>pad_token := eos_token tok\<rparr> else tok)"
    and "tokenizer_save_pretrained libs saved p = None"
  shows "load_and_save_tokenizer libs model_id p w =
           (Inr saved,
            w\<lparr>disk := (disk w)(p \<mapsto> (dir_at w p)\<lparr>tokenizer_bundle := Some saved\<rparr>),
              trace := trace w @
              [Log INFO LoadingTokenizer, Call AutoTokenizer_load, Call Tokenizer_save,
               Log INFO (TokenizerSavedTo p)]\<rparr>)"
  unfolding load_and_save_tokenizer_def Let_def
  by (simp add: assms(1) assms(2) [symmetric] assms(3) emit_as_update dir_at_def del: if_split)

text \<open>
  Every run of \<open>export_lfm2_to_onnx\<close> is one of nine: one of the six library calls
  before verification raises, measuring the directory raises, a \<^verbatim>\<open>print\<close> raises, or the
  run completes. Each case gives the result, what the output directory holds at the end,
  and the events the run added to the trace.
\<close>

lemma export_run_cases
  [consumes 0, case_names mkdir_raises tokenizer_load_raises tokenizer_save_raises
     model_load_raises export_raises save_raises size_raises print_raises completes]:
  fixes libs :: "('a, 'pt, 'm) libs" and w :: "('a, 'm) world"
    and model_id output_dir :: string
  defines "p \<equiv> Path output_dir"
    and "run \<equiv> export_lfm2_to_onnx libs model_id output_dir w"
    and "provider \<equiv> (if cuda_is_available libs then CUDAExecutionProvider else CPUExecutionProvider)"
  obtains
    (mkdir_raises) e where
      "mkdir libs p = Some e" "fst run = Inl e" "disk (snd run) = disk w"
      "trace (snd run) = trace w @ [Log INFO (StartingExport model_id), Call Mkdir]"
  | (tokenizer_load_raises) e where
      "mkdir libs p = None" "AutoTokenizer_from_pretrained libs model_id = Inl e"
      "fst run = Inl e"
      "trace (snd run) = trace w @
         [Log INFO (StartingExport model_id), Call Mkdir,
          Log INFO LoadingTokenizer, Call AutoTokenizer_load, Log ERROR (ExportFailed e)]"
  | (tokenizer_save_raises) tok saved e where
      "mkdir libs p = None" "AutoTokenizer_from_pretrained libs model_id = Inr tok"
      "saved = (if pad_token tok = None then tok\<lparr>pad_token := eos_token tok\<rparr> else tok)"
      "tokenizer_save_pretrained libs saved p = Some e"
      "fst run = Inl e"
      "trace (snd run) = trace w @
         [Log INFO (StartingExport model_id), Call Mkdir,
          Log INFO LoadingTokenizer, Call AutoTokenizer_load, Call Tokenizer_save,
          Log ERROR (ExportFailed e)]"
  | (model_load_raises) tok saved e where
      "mkdir libs p = None" "AutoTokenizer_from_pretrained libs model_id = Inr tok"
      "saved = (if pad_token tok = None then tok\<lparr>pad_token := eos_token tok\<rparr> else tok)"
      "tokenizer_save_pretrained libs saved p = None"
      "AutoModelForCausalLM_from_pretrained libs model_id Float16 ''auto'' True = Inl e"
      "fst run = Inl e"
      "tokenizer_bundle (dir_at (snd run) p) = Some saved"
      "model_artifact (dir_at (snd run) p) = model_artifact (dir_at w p)"
      "trace (snd run) = trace w @
         [Log INFO (StartingExport model_id), Call Mkdir,
          Log INFO LoadingTokenizer, Call AutoTokenizer_load, Call Tokenizer_save,
          Log INFO (TokenizerSavedTo p),
          Log INFO LoadingPyTorchModel, Call AutoModelForCausalLM_load,
          Log ERROR (ExportFailed e)]"
  | (export_raises) tok saved model e where
      "mkdir libs p = None" "AutoTokenizer_from_pretrained libs model_id = Inr tok"
      "saved = (if pad_token tok = None then tok\<lparr>pad_token := eos_token tok\<rparr> else tok)"
      "tokenizer_save_pretrained libs saved p = None"
      "AutoModelForCausalLM_from_pretrained libs model_id Float16 ''auto'' True = Inr model"
      "ORTModelForCausalLM_export libs model_id provider = Inl e"
      "fst run = Inl e"
      "tokenizer_bundle (dir_at (snd run) p) = Some saved"
      "model_artifact (dir_at (snd run) p) = model_artifact (dir_at w p)"
      "trace (snd run) = trace w @
         [Log INFO (StartingExport model_id), Call Mkdir,
          Log INFO LoadingTokenizer, Call AutoTokenizer_load, Call Tokenizer_save,
          Log INFO (TokenizerSavedTo p),
          Log INFO LoadingPyTorchModel, Call AutoModelForCausalLM_load,
          Log INFO ExportingToONNX, Call ORTModel_export,
          Log ERROR (ExportFailed e)]"
  | (save_raises) tok saved model onnx_model e where
      "mkdir libs p = None" "AutoTokenizer_from_pretrained libs model_id = Inr tok"
      "saved = (if pad_token tok = None then tok\<lparr>pad_token := eos_token tok\<rparr> else tok)"
      "tokenizer_save_pretrained libs saved p = None"
      "AutoModelForCausalLM_from_pretrained libs model_id Float16 ''auto'' True = Inr model"
      "ORTModelForCausalLM_export libs model_id provider = Inr onnx_model"
      "onnx_save_pretrained libs onnx_model p = Some e"
      "fst run = Inl e"
      "tokenizer_bundle (dir_at (snd run) p) = Some saved"
      "model_artifact (dir_at (snd run) p) = model_artifact (dir_at w p)"
      "trace (snd run) = trace w @
         [Log INFO (StartingExport model_id), Call Mkdir,
          Log INFO LoadingTokenizer, Call AutoTokenizer_load, Call Tokenizer_save,
          Log INFO (TokenizerSavedTo p),
          Log INFO LoadingPyTorchModel, Call AutoModelForCausalLM_load,
          Log INFO ExportingToONNX, Call ORTModel_export, Call ORTModel_save,
          Log ERROR (ExportFailed e)]"
  | (size_raises) tok saved model onnx_model new e where
      "mkdir libs p = None" "AutoTokenizer_from_pretrained libs model_id = Inr tok"
      "saved = (if pad_token tok = None then tok\<lparr>pad_token := eos_token tok\<rparr> else tok)"
      "tokenizer_save_pretrained libs saved p = None"
      "AutoModelForCausalLM_from_pretrained libs model_id Float16 ''auto'' True = Inr model"
      "ORTModelForCausalLM_export libs model_id provider = Inr onnx_model"
      "onnx_save_pretrained libs onnx_model p = None"
      "fst run = Inl e"
      "disk (snd run) p = Some ((dir_at w p)
          \<lparr>tokenizer_bundle := Some saved, model_artifact := Some onnx_model\<rparr>)"
      "tokenizer_bundle (dir_at (snd run) p) = Some saved"
      "model_artifact (dir_at (snd run) p) = Some onnx_model"
      "trace (snd run) = trace w @
         ([Log INFO (StartingExport model_id), Call Mkdir,
          Log INFO LoadingTokenizer, Call AutoTokenizer_load, Call Tokenizer_save,
          Log INFO (TokenizerSavedTo p),
          Log INFO LoadingPyTorchModel, Call AutoModelForCausalLM_load,
          Log INFO ExportingToONNX, Call ORTModel_export, Call ORTModel_save,
          Log INFO (ONNXModelSavedTo p), Log INFO VerifyingExport, Call ORTModel_reload]
         @ new @
         [Log INFO ExportCompleted, Log INFO (ModelSavedTo p), Log ERROR (ExportFailed e)])"
      "\<not> list_ex is_Print new" "Log INFO ExportCompleted \<notin> set new"
      "get_dir_size (directory_tree libs (dir_at (snd run) p)) = Inl e"
  | (print_raises) tok saved model onnx_model new size e where
      "mkdir libs p = None" "AutoTokenizer_from_pretrained libs model_id = Inr tok"
      "saved = (if pad_token tok = None then tok\<lparr>pad_token := eos_token tok\<rparr> else tok)"
      "tokenizer_save_pretrained libs saved p = None"
      "AutoModelForCausalLM_from_pretrained libs model_id Float16 ''auto'' True = Inr model"
      "ORTModelForCausalLM_export libs model_id provider = Inr onnx_model"
      "onnx_save_pretrained libs onnx_model p = None"
      "fst run = Inl e"
      "disk (snd run) p = Some ((dir_at w p)
          \<lparr>tokenizer_bundle := Some saved, model_artifact := Some onnx_model\<rparr>)"
      "tokenizer_bundle (dir_at (snd run) p) = Some saved"
      "model_artifact (dir_at (snd run) p) = Some onnx_model"
      "trace (snd run) = trace w @
         ([Log INFO (StartingExport model_id), Call Mkdir,
          Log INFO LoadingTokenizer, Call AutoTokenizer_load, Call Tokenizer_save,
          Log INFO (TokenizerSavedTo p),
          Log INFO LoadingPyTorchModel, Call AutoModelForCausalLM_load,
          Log INFO ExportingToONNX, Call ORTModel_export, Call ORTModel_save,
          Log INFO (ONNXModelSavedTo p), Log INFO VerifyingExport, Call ORTModel_reload]
         @ new @
         [Log INFO ExportCompleted, Log INFO (ModelSavedTo p), Log INFO (ModelSizeMB size)]
         @ map Print (printed libs (usage_lines p)) @ [Log ERROR (ExportFailed e)])"
      "\<not> list_ex is_Print new" "Log INFO ExportCompleted \<notin> set new"
      "get_dir_size (directory_tree libs (dir_at (snd run) p)) = Inr size"
      "print_failure libs (usage_lines p) = Some e"
  | (completes) tok saved model onnx_model new size where
      "mkdir libs p = None" "AutoTokenizer_from_pretrained libs model_id = Inr tok"
      "saved = (if pad_token tok = None then tok\<lparr>pad_token := eos_token tok\<rparr> else tok)"
      "tokenizer_save_pretrained libs saved p = None"
      "AutoModelForCausalLM_from_pretrained libs model_id Float16 ''auto'' True = Inr model"
      "ORTModelForCausalLM_export libs model_id provider = Inr onnx_model"
      "onnx_save_pretrained libs onnx_model p = None"
      "fst run = Inr ()"
      "disk (snd run) p = Some ((dir_at w p)
          \<lparr>tokenizer_bundle := Some saved, model_artifact := Some onnx_model\<rparr>)"
      "trace (snd run) = trace w @
         ([Log INFO (StartingExport model_id), Call Mkdir,
          Log INFO LoadingTokenizer, Call AutoTokenizer_load, Call Tokenizer_save,
          Log INFO (TokenizerSavedTo p),
          Log INFO LoadingPyTorchModel, Call AutoModelForCausalLM_load,
          Log INFO ExportingToONNX, Call ORTModel_export, Call ORTModel_save,
          Log INFO (ONNXModelSavedTo p), Log INFO VerifyingExport, Call ORTModel_reload]
         @ new @
         [Log INFO ExportCompleted, Log INFO (ModelSavedTo p), Log INFO (ModelSizeMB size)]
         @ map Print (usage_lines p))"
      "\<not> list_ex is_Print new" "Log INFO ExportCompleted \<notin> set new"
      "get_dir_size (directory_tree libs (dir_at (snd run) p)) = Inr size"
      "print_failure libs (usage_lines p) = None"
proof (cases "mkdir libs p")
  case (Some e)
  have "run = (Inl e, w\<lparr>trace := trace w @ [Log INFO (StartingExport model_id), Call Mkdir]\<rparr>)"
    unfolding run_def export_lfm2_to_onnx_def Let_def
    using Some by (simp add: p_def emit_as_update)
  then show ?thesis
    using Some by (intro mkdir_raises [of e]) simp_all
next
  case None
  define w0 where "w0 = (let w1 = emit (Call Mkdir) (emit (Log INFO (StartingExport model_id)) w)
     in if disk w1 p = None then w1\<lparr>disk := (disk w1)(p \<mapsto> empty_directory)\<rparr> else w1)"
  have w0: "trace w0 = trace w @ [Log INFO (StartingExport model_id), Call Mkdir]"
    "dir_at w0 p = dir_at w p"
    by (simp_all add: w0_def Let_def dir_at_def)
  have run: "run = (case export_try libs model_id p w0 of
                 (Inl e, w) \<Rightarrow> (Inl e, emit (Log ERROR (ExportFailed e)) w)
               | (Inr u, w) \<Rightarrow> (Inr (), w))"
    unfolding run_def export_lfm2_to_onnx_def Let_def w0_def
    using None by (simp add: p_def)
  show ?thesis
  proof (cases "AutoTokenizer_from_pretrained libs model_id")
    case (Inl e)
    have "run = (Inl e, w0\<lparr>trace := trace w0 @
        [Log INFO LoadingTokenizer, Call AutoTokenizer_load, Log ERROR (ExportFailed e)]\<rparr>)"
      by (simp add: run export_try_def load_and_save_tokenizer_load_raises [OF Inl]
          emit_as_update)
    then show ?thesis
      using None Inl by (intro tokenizer_load_raises [of e]) (simp_all add: w0)
  next
    case (Inr tok)
    define saved where
      "saved = (if pad_token tok = None then tok\<lparr>pad_token := eos_token tok\<rparr> else tok)"
    show ?thesis
    proof (cases "tokenizer_save_pretrained libs saved p")
      case (Some e)
      have "run = (Inl e, w0\<lparr>trace := trace w0 @
          [Log INFO LoadingTokenizer, Call AutoTokenizer_load, Call Tokenizer_save,
           Log ERROR (ExportFailed e)]\<rparr>)"
        by (simp add: run export_try_def
            load_and_save_tokenizer_save_raises [OF Inr saved_def Some] emit_as_update)
      then show ?thesis
        using None Inr saved_def Some
        by (intro tokenizer_save_raises [of tok saved e]) (simp_all add: w0)
    next
      case saved_ok: None
      define w1 where "w1 = emit (Call AutoModelForCausalLM_load) (emit (Log INFO LoadingPyTorchModel)
        (w0\<lparr>disk := (disk w0)(p \<mapsto> (dir_at w0 p)\<lparr>tokenizer_bundle := Some saved\<rparr>),
              trace := trace w0 @
              [Log INFO LoadingTokenizer, Call AutoTokenizer_load, Call Tokenizer_save,
               Log INFO (TokenizerSavedTo p)]\<rparr>))"
      have w1: "trace w1 = trace w @ [Log INFO (StartingExport model_id), Call Mkdir,
          Log INFO LoadingTokenizer, Call AutoTokenizer_load, Call Tokenizer_save,
          Log INFO (TokenizerSavedTo p),
          Log INFO LoadingPyTorchModel, Call AutoModelForCausalLM_load]"
        "dir_at w1 p = (dir_at w p)\<lparr>tokenizer_bundle := Some saved\<rparr>"
        by (simp_all add: w1_def w0 dir_at_def [of _ p] w0(2) [unfolded dir_at_def])
      have body: "export_try libs model_id p w0 =
          (case AutoModelForCausalLM_from_pretrained libs model_id Float16 ''auto'' True of
             Inl e \<Rightarrow> (Inl e, w1)
           | Inr model \<Rightarrow> convert_and_report libs model_id p saved w1)"
        unfolding w1_def
        by (simp add: export_try_def Let_def
            load_and_save_tokenizer_succeeds [OF Inr saved_def saved_ok])
      show ?thesis
      proof (cases "AutoModelForCausalLM_from_pretrained libs model_id Float16 ''auto'' True")
        case (Inl e)
        have "run = (Inl e, w1\<lparr>trace := trace w1 @ [Log ERROR (ExportFailed e)]\<rparr>)"
          by (simp add: run body Inl emit_as_update)
        then show ?thesis
          using None Inr saved_def saved_ok Inl
          by (intro model_load_raises [of tok saved e]) (simp_all add: w1)
      next
        case model: (Inr model)
        show ?thesis
        proof (cases "ORTModelForCausalLM_export libs model_id provider")
          case (Inl e)
          have "run = (Inl e, w1\<lparr>trace := trace w1 @
              [Log INFO ExportingToONNX, Call ORTModel_export, Log ERROR (ExportFailed e)]\<rparr>)"
            by (simp add: run body model emit_as_update
                convert_and_report_export_raises [OF Inl [unfolded provider_def]])
          then show ?thesis
            using None Inr saved_def saved_ok model Inl
            by (intro export_raises [of tok saved model e]) (simp_all add: w1)
        next
          case onnx: (Inr onnx_model)
          show ?thesis
          proof (cases "onnx_save_pretrained libs onnx_model p")
            case (Some e)
            have "run = (Inl e, w1\<lparr>trace := trace w1 @
                [Log INFO ExportingToONNX, Call ORTModel_export, Call ORTModel_save,
                 Log ERROR (ExportFailed e)]\<rparr>)"
              by (simp add: run body model emit_as_update
                  convert_and_report_save_raises [OF onnx [unfolded provider_def] Some])
            then show ?thesis
              using None Inr saved_def saved_ok model onnx Some
              by (intro save_raises [of tok saved model onnx_model e])
                (simp_all add: w1)
          next
            case onnx_ok: None
            define tree where "tree = directory_tree libs
              ((dir_at w p)\<lparr>tokenizer_bundle := Some saved, model_artifact := Some onnx_model\<rparr>)"
            define d where "d = (disk w1)(p \<mapsto>
              (dir_at w p)\<lparr>tokenizer_bundle := Some saved, model_artifact := Some onnx_model\<rparr>)"
            define pre where "pre = [Log INFO (StartingExport model_id), Call Mkdir,
              Log INFO LoadingTokenizer, Call AutoTokenizer_load, Call Tokenizer_save,
              Log INFO (TokenizerSavedTo p),
              Log INFO LoadingPyTorchModel, Call AutoModelForCausalLM_load,
              Log INFO ExportingToONNX, Call ORTModel_export, Call ORTModel_save,
              Log INFO (ONNXModelSavedTo p), Log INFO VerifyingExport, Call ORTModel_reload]"
            from convert_and_report_reports [OF onnx [unfolded provider_def] onnx_ok, of saved w1]
            obtain new where
              c0: "convert_and_report libs model_id p saved w1 =
                 (case get_dir_size (directory_tree libs
                         ((dir_at w1 p)\<lparr>model_artifact := Some onnx_model\<rparr>)) of
                    Inl e \<Rightarrow>
                      (Inl e, w1\<lparr>disk := (disk w1)(p \<mapsto> (dir_at w1 p)\<lparr>model_artifact := Some onnx_model\<rparr>),
                            trace := trace w1 @
                        [Log INFO ExportingToONNX, Call ORTModel_export, Call ORTModel_save,
                         Log INFO (ONNXModelSavedTo p), Log INFO VerifyingExport, Call ORTModel_reload]
                        @ new @ [Log INFO ExportCompleted, Log INFO (ModelSavedTo p)]\<rparr>)
                  | Inr megabytes \<Rightarrow>
                      ((case print_failure libs (usage_lines p) of
                          None \<Rightarrow> Inr () | Some e \<Rightarrow> Inl e),
                       w1\<lparr>disk := (disk w1)(p \<mapsto> (dir_at w1 p)\<lparr>model_artifact := Some onnx_model\<rparr>),
                            trace := trace w1 @
                        [Log INFO ExportingToONNX, Call ORTModel_export, Call ORTModel_save,
                         Log INFO (ONNXModelSavedTo p), Log INFO VerifyingExport, Call ORTModel_reload]
                        @ new @
                        [Log INFO ExportCompleted, Log INFO (ModelSavedTo p),
                         Log INFO (ModelSizeMB megabytes)]
                        @ map Print (printed libs (usage_lines p))\<rparr>))"
              and n: "\<not> list_ex is_Print new" "Log INFO ExportCompleted \<notin> set new"
              by blast
            have c: "convert_and_report libs model_id p saved w1 =
                 (case get_dir_size tree of
                    Inl e \<Rightarrow>
                      (Inl e, w1\<lparr>disk := d, trace := trace w @ pre @ new @
                         [Log INFO ExportCompleted, Log INFO (ModelSavedTo p)]\<rparr>)
                  | Inr megabytes \<Rightarrow>
                      ((case print_failure libs (usage_lines p) of
                          None \<Rightarrow> Inr () | Some e \<Rightarrow> Inl e),
                       w1\<lparr>disk := d, trace := trace w @ pre @ new @
                         [Log INFO ExportCompleted, Log INFO (ModelSavedTo p),
                          Log INFO (ModelSizeMB megabytes)]
                         @ map Print (printed libs (usage_lines p))\<rparr>))"
              unfolding c0 w1 tree_def d_def pre_def
              by (simp split: sum.splits)
            have r: "run = (case convert_and_report libs model_id p saved w1 of
                 (Inl e, w) \<Rightarrow> (Inl e, emit (Log ERROR (ExportFailed e)) w)
               | (Inr u, w) \<Rightarrow> (Inr (), w))"
              by (simp add: run body model)
            show ?thesis
            proof (cases "get_dir_size tree")
              case (Inl e)
              have "run = (Inl e, w1\<lparr>disk := d, trace := trace w @ pre @ new @
                  [Log INFO ExportCompleted, Log INFO (ModelSavedTo p),
                   Log ERROR (ExportFailed e)]\<rparr>)"
                by (simp add: r c Inl emit_as_update)
              then show ?thesis
                using n Inl
                by (intro size_raises [of tok saved model onnx_model e new,
                      OF None Inr saved_def saved_ok model onnx onnx_ok])
                  (simp_all add: d_def pre_def tree_def dir_at_def)
            next
              case size: (Inr megabytes)
              show ?thesis
              proof (cases "print_failure libs (usage_lines p)")
                case (Some e)
                have "run = (Inl e, w1\<lparr>disk := d, trace := trace w @ pre @ new @
                    [Log INFO ExportCompleted, Log INFO (ModelSavedTo p),
                     Log INFO (ModelSizeMB megabytes)]
                    @ map Print (printed libs (usage_lines p))
                    @ [Log ERROR (ExportFailed e)]\<rparr>)"
                  by (simp add: r c size Some emit_as_update)
                then show ?thesis
                  using n size Some
                  by (intro print_raises [of tok saved model onnx_model e new megabytes,
                        OF None Inr saved_def saved_ok model onnx onnx_ok])
                    (simp_all add: d_def pre_def tree_def dir_at_def)
              next
                case printed_ok: None
                have "run = (Inr (), w1\<lparr>disk := d, trace := trace w @ pre @ new @
                    [Log INFO ExportCompleted, Log INFO (ModelSavedTo p),
                     Log INFO (ModelSizeMB megabytes)]
                    @ map Print (usage_lines p)\<rparr>)"
                  by (simp add: r c size printed_ok printed_all)
                then show ?thesis
                  using n size printed_ok
                  by (intro completes [of tok saved model onnx_model new megabytes,
                        OF None Inr saved_def saved_ok model onnx onnx_ok])
                    (simp_all add: d_def pre_def tree_def dir_at_def)
              qed
            qed
          qed
        qed
      qed
    qed
  qed
qed
subsection \<open>The sample libraries, call by call\<close>

lemma demo_libs_sel:
  "import_packages (demo_libs tok) = None"
  "parse_args (demo_libs tok) argv =
     Inr \<lparr>args_model_id = ''LiquidAI/LFM2-350M'', args_output_dir = ''./models/lfm2-350m-onnx'',
          args_verify = (''--verify'' \<in> set argv)\<rparr>"
  "mkdir (demo_libs tok) p = None"
  "AutoTokenizer_from_pretrained (demo_libs tok) model_id = Inr tok"
  "tokenizer_save_pretrained (demo_libs tok) t p = None"
  "AutoModelForCausalLM_from_pretrained (demo_libs tok) model_id dtype device_map trust = Inr ()"
  "cuda_is_available (demo_libs tok) = False"
  "ORTModelForCausalLM_export (demo_libs tok) model_id provider = Inr 350"
  "onnx_save_pretrained (demo_libs tok) m p = None"
  "ORTModelForCausalLM_from_pretrained (demo_libs tok) p d =
     (case d of
        None \<Rightarrow> Inl (Exn [''OSError''] ''no such directory'')
      | Some dir \<Rightarrow> (case model_artifact dir of
                      None \<Rightarrow> Inl (Exn [''OSError''] ''no model.onnx'')
                    | Some m \<Rightarrow> Inr m))"
  "tokenizer_call (demo_libs tok) t prompt = Inr [''input_ids'' \<mapsto> [[1, 2, 3, 4]]]"
  "convert_tokens_to_ids (demo_libs tok) t s = length (takeWhile (\<lambda>x. x \<noteq> s) (attrs t))"
  "generate (demo_libs tok) m input_ids kwargs = Inr [[1, 2, 3, 4, 0]]"
  "decode (demo_libs tok) t ids = Inr ''Hello, I am''"
  "tokenizer_files (demo_libs tok) t = [(''tokenizer.json'', File 393216)]"
  "onnx_files (demo_libs tok) m = [(''model.onnx'', File 5242880)]"
  "stdout_write (demo_libs tok) = (\<lambda>line. None)"
  by (simp_all add: demo_libs_def)


lemma failing_export_libs_sel:
  "mkdir failing_export_libs p = None"
  "AutoTokenizer_from_pretrained failing_export_libs model_id = Inr gpt2_tokenizer"
  "tokenizer_save_pretrained failing_export_libs t p = None"
  "AutoModelForCausalLM_from_pretrained failing_export_libs model_id dtype device_map trust = Inr ()"
  "cuda_is_available failing_export_libs = False"
  "ORTModelForCausalLM_export failing_export_libs model_id provider = Inl unsupported_architecture"
  by (simp_all add: failing_export_libs_def demo_libs_sel)

lemma failing_load_libs_sel:
  "mkdir failing_load_libs p = None"
  "AutoTokenizer_from_pretrained failing_load_libs model_id = Inr lfm2_tokenizer"
  "tokenizer_save_pretrained failing_load_libs t p = None"
  "AutoModelForCausalLM_from_pretrained failing_load_libs model_id dtype device_map trust =
     Inl accelerate_missing"
  "cuda_is_available failing_load_libs = False"
  "ORTModelForCausalLM_export failing_load_libs model_id provider = Inr 350"
  "onnx_save_pretrained failing_load_libs m p = None"
  "ORTModelForCausalLM_from_pretrained failing_load_libs p d =
     (case d of
        None \<Rightarrow> Inl (Exn [''OSError''] ''no such directory'')
      | Some dir \<Rightarrow> (case model_artifact dir of
                      None \<Rightarrow> Inl (Exn [''OSError''] ''no model.onnx'')
                    | Some m \<Rightarrow> Inr m))"
  "tokenizer_call failing_load_libs t prompt = Inr [''input_ids'' \<mapsto> [[1, 2, 3, 4]]]"
  "generate failing_load_libs m input_ids kwargs = Inr [[1, 2, 3, 4, 0]]"
  "decode failing_load_libs t ids = Inr ''Hello, I am''"
  "tokenizer_files failing_load_libs t = [(''tokenizer.json'', File 393216)]"
  "onnx_files failing_load_libs m = [(''model.onnx'', File 5242880)]"
  "stdout_write failing_load_libs = (\<lambda>line. None)"
  by (simp_all add: failing_load_libs_def demo_libs_sel)

text \<open>The size of what the sample libraries write, and of the same beside a closed cache.\<close>

lemma demo_tree_size:
  "get_dir_size (Dir Open [(''tokenizer.json'', File 393216), (''model.onnx'', File 5242880)]) =
     Inr (b64 (269 / 50))"
proof -
  let ?tree = "Dir Open [(''tokenizer.json'', File 393216), (''model.onnx'', File 5242880)]"
  have i: "inspectable ?tree"
    and t: "regular_files_under ?tree + linked_files_under ?tree = 5636096"
    by (simp_all add: inspectable_def can_inspect_def)
  from get_dir_size_below_2_53 [OF i] t
  have "get_dir_size ?tree = Inr (b64 (dec_round (5636096 / (1024 * 1024)) 2))"
    by simp
  also have "dec_round (5636096 / (1024 * 1024)) 2 = 269 / 50"
    by (simp add: round_eval)
  finally show ?thesis .
qed

lemma cluttered_tree_size:
  "get_dir_size (Dir Open [(''tokenizer.json'', File 393216), (''model.onnx'', File 5242880),
      (''cache'', Dir ListOnly [(''lock'', File 0)])]) = Inl PermissionError"
  by (simp add: get_dir_size_def)

lemma Path_out: "Path ''out'' = PurePath [] [''out'']"
  by (simp add: Path_def Let_def)


lemmas run_eval =
  emit_as_update print_usage_instructions_def print_lines_never_raises dir_at_def
  empty_directory_def pad_token_id_of_def eos_token_id_of_def directory_tree_def
  demo_tree_size cluttered_tree_size

subsection \<open>The pad token (claims C1 and C9)\<close>

text \<open>
  Claim C1, as the code has it. When the loaded tokenizer has no pad token, the script
  assigns it the tokenizer's \<^verbatim>\<open>eos_token\<close> attribute before \<^verbatim>\<open>save_pretrained\<close>; if the
  directory can be made and the save does not raise, the tokenizer held by the output
  directory at the end of the run, however the run ends, is the loaded one with
  \<^verbatim>\<open>pad_token\<close> set to its \<^verbatim>\<open>eos_token\<close>. The persisted pad token equals the
  end-of-sequence token, and is defined exactly when that token is.
\<close>

theorem missing_pad_token_saved_as_eos_token:
  assumes "mkdir libs (Path output_dir) = None"
    and "AutoTokenizer_from_pretrained libs model_id = Inr tok"
    and "pad_token tok = None"
    and "tokenizer_save_pretrained libs (tok\<lparr>pad_token := eos_token tok\<rparr>) (Path output_dir) = None"
  shows "tokenizer_bundle
           (dir_at (snd (export_lfm2_to_onnx libs model_id output_dir w)) (Path output_dir)) =
         Some (tok\<lparr>pad_token := eos_token tok\<rparr>)
       \<and> map_option pad_token (tokenizer_bundle
           (dir_at (snd (export_lfm2_to_onnx libs model_id output_dir w)) (Path output_dir))) =
         Some (eos_token tok)"
proof (cases rule: export_run_cases
    [where libs = libs and w = w and model_id = model_id and output_dir = output_dir])
  case (completes tok' saved model onnx_model new size)
  then show ?thesis using assms by (simp add: dir_at_def)
qed (use assms in simp_all)

theorem missing_pad_token_saved_as_eos_token_witness:
  "tokenizer_bundle
     (dir_at (snd (export_lfm2_to_onnx (demo_libs gpt2_tokenizer) ''LiquidAI/LFM2-350M'' ''out''
                     fresh_world)) (Path ''out'')) =
   Some (gpt2_tokenizer\<lparr>pad_token := Some ''<|endoftext|>''\<rparr>)
   \<and> map_option pad_token (tokenizer_bundle
     (dir_at (snd (export_lfm2_to_onnx (demo_libs gpt2_tokenizer) ''LiquidAI/LFM2-350M'' ''out''
                     fresh_world)) (Path ''out''))) =
   Some (Some ''<|endoftext|>'')"
  using missing_pad_token_saved_as_eos_token
    [of "demo_libs gpt2_tokenizer" "''out''" "''LiquidAI/LFM2-350M'' " gpt2_tokenizer fresh_world]
  by (simp add: demo_libs_sel gpt2_tokenizer_def)

text \<open>
  Claim C1 as it is worded promises a defined pad token. A tokenizer with neither a pad
  token nor an end-of-sequence token is saved with its pad token still undefined, in a
  run that completes.
\<close>

theorem pad_token_still_undefined_counterexample:
  "pad_token bare_tokenizer = None
   \<and> AutoTokenizer_from_pretrained (demo_libs bare_tokenizer) ''some/model'' = Inr bare_tokenizer
   \<and> fst (export_lfm2_to_onnx (demo_libs bare_tokenizer) ''some/model'' ''out'' fresh_world) = Inr ()
   \<and> map_option pad_token (tokenizer_bundle
        (dir_at (snd (export_lfm2_to_onnx (demo_libs bare_tokenizer) ''some/model'' ''out''
                        fresh_world)) (Path ''out''))) = Some None"
  unfolding export_lfm2_to_onnx_def export_try_def load_and_save_tokenizer_def
    convert_and_report_def verify_export_def verify_export_try_def Let_def
  by (simp add: run_eval demo_libs_sel bare_tokenizer_def fresh_world_def)

text \<open>
  Claim C9. A tokenizer that comes with a pad token is handed to \<^verbatim>\<open>save_pretrained\<close> as it
  was loaded, and the output directory holds exactly that tokenizer at the end of the run:
  the pad token and every other attribute are the loaded ones.
\<close>

theorem defined_pad_token_saved_unchanged:
  assumes "mkdir libs (Path output_dir) = None"
    and "AutoTokenizer_from_pretrained libs model_id = Inr tok"
    and "pad_token tok \<noteq> None"
    and "tokenizer_save_pretrained libs tok (Path output_dir) = None"
  shows "tokenizer_bundle
           (dir_at (snd (export_lfm2_to_onnx libs model_id output_dir w)) (Path output_dir)) =
         Some tok"
proof (cases rule: export_run_cases
    [where libs = libs and w = w and model_id = model_id and output_dir = output_dir])
  case (completes tok' saved model onnx_model new size)
  then show ?thesis using assms by (auto simp: dir_at_def)
qed (use assms in auto)

theorem defined_pad_token_saved_unchanged_witness:
  "tokenizer_bundle
     (dir_at (snd (export_lfm2_to_onnx (demo_libs lfm2_tokenizer) ''LiquidAI/LFM2-350M'' ''out''
                     fresh_world)) (Path ''out'')) =
   Some lfm2_tokenizer \<and> pad_token lfm2_tokenizer = Some ''<|pad|>''"
  using defined_pad_token_saved_unchanged
    [of "demo_libs lfm2_tokenizer" "''out''" "''LiquidAI/LFM2-350M'' " lfm2_tokenizer fresh_world]
  by (simp add: demo_libs_sel lfm2_tokenizer_def)

subsection \<open>What a run leaves on disk (claims C7 and C8)\<close>

text \<open>
  Claim C8. After a run that returns without raising, the output directory exists and
  holds both artifacts written by this run: the tokenizer that was loaded (with its pad
  token resolved) and the ONNX model that the conversion produced.
\<close>

theorem successful_export_leaves_both_artifacts:
  assumes "export_lfm2_to_onnx libs model_id output_dir w = (Inr (), w')"
  shows "\<exists>d tok onnx_model.
           disk w' (Path output_dir) = Some d
         \<and> AutoTokenizer_from_pretrained libs model_id = Inr tok
         \<and> tokenizer_bundle d =
             Some (if pad_token tok = None then tok\<lparr>pad_token := eos_token tok\<rparr> else tok)
         \<and> ORTModelForCausalLM_export libs model_id
             (if cuda_is_available libs then CUDAExecutionProvider else CPUExecutionProvider) =
             Inr onnx_model
         \<and> model_artifact d = Some onnx_model"
proof (cases rule: export_run_cases
    [where libs = libs and w = w and model_id = model_id and output_dir = output_dir])
  case (completes tok saved model onnx_model new size)
  from completes(9) assms have "disk w' (Path output_dir) =
      Some ((dir_at w (Path output_dir))
        \<lparr>tokenizer_bundle := Some saved, model_artifact := Some onnx_model\<rparr>)"
    by simp
  with completes(2,3,6) show ?thesis
    by (intro exI [where x = "(dir_at w (Path output_dir))
          \<lparr>tokenizer_bundle := Some saved, model_artifact := Some onnx_model\<rparr>"]
        exI [where x = tok] exI [where x = onnx_model])
      (simp del: if_split)
qed (use assms in simp_all)

theorem successful_export_leaves_both_artifacts_witness:
  "tokenizer_bundle (dir_at (snd (export_lfm2_to_onnx (demo_libs gpt2_tokenizer)
       ''LiquidAI/LFM2-350M'' ''out'' fresh_world)) (Path ''out'')) =
     Some (gpt2_tokenizer\<lparr>pad_token := Some ''<|endoftext|>''\<rparr>)
   \<and> model_artifact (dir_at (snd (export_lfm2_to_onnx (demo_libs gpt2_tokenizer)
       ''LiquidAI/LFM2-350M'' ''out'' fresh_world)) (Path ''out'')) = Some 350"
proof -
  let ?run = "export_lfm2_to_onnx (demo_libs gpt2_tokenizer) ''LiquidAI/LFM2-350M'' ''out''
                fresh_world"
  have "fst ?run = Inr ()"
    unfolding export_lfm2_to_onnx_def export_try_def load_and_save_tokenizer_def
      convert_and_report_def verify_export_def verify_export_try_def Let_def
    by (simp add: run_eval demo_libs_sel gpt2_tokenizer_def fresh_world_def)
  then have "?run = (Inr (), snd ?run)"
    by (metis prod.collapse)
  from successful_export_leaves_both_artifacts [OF this]
  show ?thesis
    by (auto simp: demo_libs_sel dir_at_def gpt2_tokenizer_def)
qed

text \<open>
  Claim C7. In every run the call that saves the tokenizer comes before the call that
  loads the PyTorch model and before the call that converts to ONNX, and the
  \<^verbatim>\<open>Tokenizer saved\<close> record, written after the save returned, comes before both too. So
  in any run that got as far as loading the model, however it ends (the load, the
  conversion or the save of the model may raise), the output directory holds the saved
  tokenizer at the end.
\<close>

theorem tokenizer_persisted_before_model_steps:
  assumes "export_lfm2_to_onnx libs model_id output_dir w = (r, w')"
  shows "preceded_by (Call Tokenizer_save) (Call AutoModelForCausalLM_load) (new_events w w')
       \<and> preceded_by (Call Tokenizer_save) (Call ORTModel_export) (new_events w w')
       \<and> preceded_by (Log INFO (TokenizerSavedTo (Path output_dir)))
            (Call AutoModelForCausalLM_load) (new_events w w')
       \<and> preceded_by (Log INFO (TokenizerSavedTo (Path output_dir)))
            (Call ORTModel_export) (new_events w w')
       \<and> (Call AutoModelForCausalLM_load \<in> set (new_events w w')
            \<or> Call ORTModel_export \<in> set (new_events w w') \<longrightarrow>
          (\<exists>tok. AutoTokenizer_from_pretrained libs model_id = Inr tok
             \<and> tokenizer_bundle (dir_at w' (Path output_dir)) =
                 Some (if pad_token tok = None then tok\<lparr>pad_token := eos_token tok\<rparr> else tok)))"
proof -
  have w': "w' = snd (export_lfm2_to_onnx libs model_id output_dir w)"
    by (simp add: assms)
  show ?thesis
  proof (cases rule: export_run_cases
      [where libs = libs and w = w and model_id = model_id and output_dir = output_dir])
    case (completes tok saved model onnx_model new size)
    then show ?thesis
      by (simp add: w' new_events_def dir_at_def)
  qed (simp_all add: w' new_events_def)
qed

theorem tokenizer_persisted_before_model_steps_witness:
  "fst (export_lfm2_to_onnx failing_export_libs ''LiquidAI/LFM2-350M'' ''out'' fresh_world) =
     Inl unsupported_architecture
   \<and> Call ORTModel_export \<in> set (new_events fresh_world
        (snd (export_lfm2_to_onnx failing_export_libs ''LiquidAI/LFM2-350M'' ''out'' fresh_world)))
   \<and> preceded_by (Call Tokenizer_save) (Call ORTModel_export) (new_events fresh_world
        (snd (export_lfm2_to_onnx failing_export_libs ''LiquidAI/LFM2-350M'' ''out'' fresh_world)))
   \<and> tokenizer_bundle (dir_at
        (snd (export_lfm2_to_onnx failing_export_libs ''LiquidAI/LFM2-350M'' ''out'' fresh_world))
        (Path ''out'')) =
      Some (gpt2_tokenizer\<lparr>pad_token := Some ''<|endoftext|>''\<rparr>)"
proof -
  let ?run = "export_lfm2_to_onnx failing_export_libs ''LiquidAI/LFM2-350M'' ''out'' fresh_world"
  have raised: "fst ?run = Inl unsupported_architecture"
    and reached: "Call ORTModel_export \<in> set (new_events fresh_world (snd ?run))"
    unfolding export_lfm2_to_onnx_def export_try_def load_and_save_tokenizer_def
      convert_and_report_def Let_def
    by (simp_all add: run_eval failing_export_libs_sel gpt2_tokenizer_def fresh_world_def
        new_events_def)
  have "?run = (fst ?run, snd ?run)" by simp
  from tokenizer_persisted_before_model_steps [OF this] reached raised
  show ?thesis
    by (simp add: failing_export_libs_sel gpt2_tokenizer_def)
qed

subsection \<open>Failures (claims C2 and C3)\<close>

text \<open>
  Claim C3. Once the output directory is made, an exception \<open>e\<close> raised by loading or
  saving the tokenizer, by loading the PyTorch model, or by converting or saving the
  ONNX model leaves \<open>export_lfm2_to_onnx\<close> as the same \<open>e\<close>; the last thing the run does is
  to log \<^verbatim>\<open>Export failed: e\<close> at level ERROR, and it neither logs the success banner nor
  prints anything.
\<close>

theorem failure_before_verification_logged_and_reraised:
  assumes "mkdir libs (Path output_dir) = None"
    and "raised_before_verification libs model_id (Path output_dir) e"
    and "export_lfm2_to_onnx libs model_id output_dir w = (r, w')"
  shows "r = Inl e
       \<and> new_events w w' \<noteq> []
       \<and> last (new_events w w') = Log ERROR (ExportFailed e)
       \<and> Log INFO ExportCompleted \<notin> set (new_events w w')
       \<and> \<not> list_ex is_Print (new_events w w')"
proof -
  have run: "r = fst (export_lfm2_to_onnx libs model_id output_dir w)"
    "w' = snd (export_lfm2_to_onnx libs model_id output_dir w)"
    by (simp_all add: assms(3))
  show ?thesis
  proof (cases rule: export_run_cases
      [where libs = libs and w = w and model_id = model_id and output_dir = output_dir])
    case (mkdir_raises e')
    with assms(1) show ?thesis by simp
  next
    case (tokenizer_load_raises e')
    with assms(2) show ?thesis
      by (simp add: run new_events_def raised_before_verification_def)
  next
    case (tokenizer_save_raises tok saved e')
    with assms(2) show ?thesis
      by (simp add: run new_events_def raised_before_verification_def del: if_split)
  next
    case (model_load_raises tok saved e')
    with assms(2) show ?thesis
      by (simp add: run new_events_def raised_before_verification_def del: if_split)
  next
    case (export_raises tok saved model e')
    with assms(2) show ?thesis
      by (simp add: run new_events_def raised_before_verification_def del: if_split)
  next
    case (save_raises tok saved model onnx_model e')
    with assms(2) show ?thesis
      by (simp add: run new_events_def raised_before_verification_def del: if_split)
  next
    case (size_raises tok saved model onnx_model new e')
    with assms(2) show ?thesis
      by (simp add: raised_before_verification_def del: if_split)
  next
    case (print_raises tok saved model onnx_model new size e')
    with assms(2) show ?thesis
      by (simp add: raised_before_verification_def del: if_split)
  next
    case (completes tok saved model onnx_model new size)
    with assms(2) show ?thesis
      by (simp add: raised_before_verification_def del: if_split)
  qed
qed

theorem failure_before_verification_logged_and_reraised_witness:
  "raised_before_verification unknown_model_libs ''LiquidAI/LFM2-35OM'' (Path ''out'') unknown_model
   \<and> fst (export_lfm2_to_onnx unknown_model_libs ''LiquidAI/LFM2-35OM'' ''out'' fresh_world) =
       Inl unknown_model
   \<and> last (new_events fresh_world
        (snd (export_lfm2_to_onnx unknown_model_libs ''LiquidAI/LFM2-35OM'' ''out'' fresh_world))) =
       Log ERROR (ExportFailed unknown_model)
   \<and> Log INFO ExportCompleted \<notin> set (new_events fresh_world
        (snd (export_lfm2_to_onnx unknown_model_libs ''LiquidAI/LFM2-35OM'' ''out'' fresh_world)))
   \<and> \<not> list_ex is_Print (new_events fresh_world
        (snd (export_lfm2_to_onnx unknown_model_libs ''LiquidAI/LFM2-35OM'' ''out'' fresh_world)))"
proof -
  let ?run = "export_lfm2_to_onnx unknown_model_libs ''LiquidAI/LFM2-35OM'' ''out'' fresh_world"
  have made: "mkdir unknown_model_libs (Path ''out'') = None"
    and raised: "raised_before_verification unknown_model_libs ''LiquidAI/LFM2-35OM''
                   (Path ''out'') unknown_model"
    by (simp_all add: unknown_model_libs_def demo_libs_sel raised_before_verification_def)
  have "?run = (fst ?run, snd ?run)" by simp
  from failure_before_verification_logged_and_reraised [OF made raised this] raised
  show ?thesis by simp
qed



subsection \<open>The command line and the import guard (claims C4 and C6)\<close>

text \<open>
  Claim C4. \<open>main\<close> passes \<^verbatim>\<open>args.model_id\<close> and \<^verbatim>\<open>args.output_dir\<close> to
  \<open>export_lfm2_to_onnx\<close> and never reads \<^verbatim>\<open>args.verify\<close>: two command lines whose parsed
  arguments differ in that flag only give the same run, event for event, and a run that
  returns has reloaded the exported model for verification whatever the flag was.
\<close>

theorem verify_flag_has_no_effect:
  assumes "parse_args libs argv = Inr a"
    and "parse_args libs argv' = Inr (a\<lparr>args_verify := v\<rparr>)"
  shows "main libs argv' w = main libs argv w
       \<and> main libs argv w =
           (case export_lfm2_to_onnx libs (args_model_id a) (args_output_dir a)
                   (emit (Call Parse_args) w) of
              (Inl e, w') \<Rightarrow> (Raised e, w')
            | (Inr u, w') \<Rightarrow> (Returned, w'))
       \<and> (fst (main libs argv w) = Returned \<longrightarrow>
            Log INFO VerifyingExport \<in> set (new_events w (snd (main libs argv w)))
            \<and> Call ORTModel_reload \<in> set (new_events w (snd (main libs argv w))))"
proof -
  let ?w0 = "emit (Call Parse_args) w"
  let ?run = "export_lfm2_to_onnx libs (args_model_id a) (args_output_dir a) ?w0"
  have m: "main libs argv w =
      (case ?run of (Inl e, w') \<Rightarrow> (Raised e, w') | (Inr u, w') \<Rightarrow> (Returned, w'))"
    by (simp add: main_def Let_def assms(1))
  have m': "main libs argv' w = main libs argv w"
    by (simp add: main_def Let_def assms)
  have fs: "fst (main libs argv w) = (case fst ?run of Inl e \<Rightarrow> Raised e | Inr u \<Rightarrow> Returned)"
    "snd (main libs argv w) = snd ?run"
    by (simp_all add: m split: prod.splits sum.splits)
  have "fst (main libs argv w) = Returned \<longrightarrow>
      Log INFO VerifyingExport \<in> set (new_events w (snd (main libs argv w)))
      \<and> Call ORTModel_reload \<in> set (new_events w (snd (main libs argv w)))"
  proof (cases rule: export_run_cases
      [where libs = libs and w = ?w0 and model_id = "args_model_id a"
         and output_dir = "args_output_dir a"])
    case (completes tok saved model onnx_model new size)
    then show ?thesis by (simp add: fs new_events_def)
  qed (simp_all add: fs)
  with m m' show ?thesis by simp
qed

theorem verify_flag_has_no_effect_witness:
  "parse_args (demo_libs lfm2_tokenizer) [] =
     Inr \<lparr>args_model_id = ''LiquidAI/LFM2-350M'', args_output_dir = ''./models/lfm2-350m-onnx'',
          args_verify = False\<rparr>
   \<and> parse_args (demo_libs lfm2_tokenizer) [''--verify''] =
     Inr \<lparr>args_model_id = ''LiquidAI/LFM2-350M'', args_output_dir = ''./models/lfm2-350m-onnx'',
          args_verify = True\<rparr>
   \<and> main (demo_libs lfm2_tokenizer) [''--verify''] fresh_world =
       main (demo_libs lfm2_tokenizer) [] fresh_world"
  using verify_flag_has_no_effect
    [of "demo_libs lfm2_tokenizer" "[]"
      "\<lparr>args_model_id = ''LiquidAI/LFM2-350M'', args_output_dir = ''./models/lfm2-350m-onnx'',
        args_verify = False\<rparr>" "[''--verify'']" True fresh_world]
  by (simp add: demo_libs_sel)

text \<open>
  Claim C6 as it is worded covers every way an import can fail. The guard names
  \<^verbatim>\<open>ImportError\<close>: an import that fails with another exception (here \<^verbatim>\<open>import torch\<close> cannot
  load a shared library and raises \<^verbatim>\<open>OSError\<close>) is not caught, so the script prints
  neither of its two lines and does not call \<^verbatim>\<open>exit(1)\<close>; the exception leaves the script.
\<close>

theorem import_failure_not_caught_counterexample:
  "import_packages broken_library_libs = Some shared_library_missing
   \<and> script broken_library_libs [''--output_dir'', ''out''] fresh_world =
       (Raised shared_library_missing, \<lparr>disk = Map.empty, trace = [Call Import_packages]\<rparr>)
   \<and> fst (script broken_library_libs [''--output_dir'', ''out''] fresh_world) \<noteq> SystemExit 1
   \<and> \<not> list_ex is_Print
         (trace (snd (script broken_library_libs [''--output_dir'', ''out''] fresh_world)))"
  by (simp add: script_def Let_def emit_as_update broken_library_libs_def fresh_world_def
      shared_library_missing_def is_ImportError_def isinstance_def)

text \<open>
  Claim C6, as the code has it. When importing the third-party packages raises
  \<^verbatim>\<open>ImportError\<close> or an exception of one of its subclasses (\<^verbatim>\<open>ModuleNotFoundError\<close>, and
  below it \<^verbatim>\<open>PackageNotFoundError\<close>), the script prints the two lines of the guard and
  exits with code 1, and nothing else has happened by then: no logging set-up, no
  argument parsing, no export, and the disk is as it was. Should one of the two \<^verbatim>\<open>print\<close>
  calls raise, that exception leaves the script in place of the exit. An import that
  raises any other exception leaves the script with that exception, nothing printed.
\<close>

theorem import_error_exits_before_workflow:
  assumes "import_packages libs = Some e"
  shows "(is_ImportError e \<longrightarrow>
            script libs argv w =
              ((case print_failure libs
                       [''Missing required packages: '' @ exn_msg e,
                        ''Install with: pip install transformers optimum[onnxruntime] torch''] of
                  None \<Rightarrow> SystemExit 1
                | Some e' \<Rightarrow> Raised e'),
               w\<lparr>trace := trace w @ Call Import_packages #
                  map Print (printed libs
                       [''Missing required packages: '' @ exn_msg e,
                        ''Install with: pip install transformers optimum[onnxruntime] torch''])\<rparr>))
       \<and> (is_ImportError e
            \<and> stdout_write libs (''Missing required packages: '' @ exn_msg e) = None
            \<and> stdout_write libs
                 ''Install with: pip install transformers optimum[onnxruntime] torch'' = None \<longrightarrow>
            script libs argv w =
              (SystemExit 1,
               w\<lparr>trace := trace w @
                 [Call Import_packages,
                  Print (''Missing required packages: '' @ exn_msg e),
                  Print ''Install with: pip install transformers optimum[onnxruntime] torch'']\<rparr>))
       \<and> (\<not> is_ImportError e \<longrightarrow>
            script libs argv w = (Raised e, w\<lparr>trace := trace w @ [Call Import_packages]\<rparr>))"
proof -
  let ?lines = "[''Missing required packages: '' @ exn_msg e,
                 ''Install with: pip install transformers optimum[onnxruntime] torch'']"
  have caught: "script libs argv w =
      ((case print_failure libs ?lines of None \<Rightarrow> SystemExit 1 | Some e' \<Rightarrow> Raised e'),
       w\<lparr>trace := trace w @ Call Import_packages # map Print (printed libs ?lines)\<rparr>)"
    if "is_ImportError e"
    unfolding script_def Let_def print_lines_effect
    using assms that
    by (cases "print_failure libs ?lines")
      (simp_all add: emit_as_update del: print_failure.simps printed.simps)
  have exits: "script libs argv w =
      (SystemExit 1,
       w\<lparr>trace := trace w @
         [Call Import_packages,
          Print (''Missing required packages: '' @ exn_msg e),
          Print ''Install with: pip install transformers optimum[onnxruntime] torch'']\<rparr>)"
    if "is_ImportError e"
      and "stdout_write libs (''Missing required packages: '' @ exn_msg e) = None"
      and "stdout_write libs
             ''Install with: pip install transformers optimum[onnxruntime] torch'' = None"
    unfolding script_def Let_def
    using assms that by (simp add: emit_as_update)
  have uncaught: "script libs argv w =
      (Raised e, w\<lparr>trace := trace w @ [Call Import_packages]\<rparr>)"
    if "\<not> is_ImportError e"
    using assms that by (simp add: script_def Let_def emit_as_update)
  from caught exits uncaught show ?thesis
    by blast
qed

theorem import_error_exits_before_workflow_witness:
  "is_ImportError no_module_optimum
   \<and> script missing_packages_libs [''--output_dir'', ''out''] fresh_world =
       (SystemExit 1,
        \<lparr>disk = Map.empty,
         trace = [Call Import_packages,
                  Print ''Missing required packages: No module named optimum'',
                  Print ''Install with: pip install transformers optimum[onnxruntime] torch'']\<rparr>)
   \<and> is_ImportError no_package_metadata
   \<and> script missing_metadata_libs [] fresh_world =
       (SystemExit 1,
        \<lparr>disk = Map.empty,
         trace = [Call Import_packages,
                  Print ''Missing required packages: No package metadata was found for onnxruntime'',
                  Print ''Install with: pip install transformers optimum[onnxruntime] torch'']\<rparr>)
   \<and> \<not> is_ImportError shared_library_missing
   \<and> script broken_library_libs [] fresh_world =
       (Raised shared_library_missing, \<lparr>disk = Map.empty, trace = [Call Import_packages]\<rparr>)"
proof -
  have missing: "import_packages missing_packages_libs = Some no_module_optimum"
    "import_packages missing_metadata_libs = Some no_package_metadata"
    "import_packages broken_library_libs = Some shared_library_missing"
    by (simp_all add: missing_packages_libs_def missing_metadata_libs_def
        broken_library_libs_def)
  have guard: "is_ImportError no_module_optimum" "is_ImportError no_package_metadata"
    "\<not> is_ImportError shared_library_missing"
    by (simp_all add: is_ImportError_def isinstance_def no_module_optimum_def
        no_package_metadata_def shared_library_missing_def)
  have written: "stdout_write missing_packages_libs = (\<lambda>line. None)"
    "stdout_write missing_metadata_libs = (\<lambda>line. None)"
    by (simp_all add: missing_packages_libs_def missing_metadata_libs_def demo_libs_sel)
  from import_error_exits_before_workflow [OF missing(1), of "[''--output_dir'', ''out'']" fresh_world]
    import_error_exits_before_workflow [OF missing(2), of "[]" fresh_world]
    import_error_exits_before_workflow [OF missing(3), of "[]" fresh_world]
    guard written
  show ?thesis
    by (simp add: fresh_world_def no_module_optimum_def no_package_metadata_def)
qed
subsection \<open>The unused PyTorch load (claim C10)\<close>

text \<open>
  Verification, and with it conversion and reporting, reads the world through the disk
  only: started from two worlds with the same disk they end alike and add the same events.
\<close>

lemma verify_export_try_same_disk:
  assumes "disk wa p = disk wb p"
  shows "\<exists>r new. verify_export_try libs p tok wa = (r, wa\<lparr>trace := trace wa @ new\<rparr>)
           \<and> verify_export_try libs p tok wb = (r, wb\<lparr>trace := trace wb @ new\<rparr>)"
  unfolding verify_export_try_def Let_def
  by (auto simp: emit_as_update assms split: sum.splits option.splits list.splits)

lemma verify_export_same_disk:
  assumes "disk wa p = disk wb p"
  shows "\<exists>new. verify_export libs p tok wa = (Inr (), wa\<lparr>trace := trace wa @ new\<rparr>)
           \<and> verify_export libs p tok wb = (Inr (), wb\<lparr>trace := trace wb @ new\<rparr>)"
proof -
  obtain r new where
    a: "verify_export_try libs p tok wa = (r, wa\<lparr>trace := trace wa @ new\<rparr>)" and
    b: "verify_export_try libs p tok wb = (r, wb\<lparr>trace := trace wb @ new\<rparr>)"
    using verify_export_try_same_disk [OF assms, of libs tok] by blast
  show ?thesis
  proof (cases r)
    case (Inl e)
    show ?thesis
      by (rule exI [where x = "new @ [Log WARNING (VerificationFailed e), Log WARNING MayHaveIssues]"])
        (simp add: verify_export_def a b Inl Let_def emit_as_update)
  next
    case (Inr u)
    show ?thesis
      by (rule exI [where x = new]) (simp add: verify_export_def a b Inr)
  qed
qed

lemma convert_and_report_same_disk:
  assumes "disk wa = disk wb"
  shows "\<exists>r d new. convert_and_report libs model_id p tok wa =
             (r, wa\<lparr>disk := d, trace := trace wa @ new\<rparr>)
           \<and> convert_and_report libs model_id p tok wb =
             (r, wb\<lparr>disk := d, trace := trace wb @ new\<rparr>)"
proof (cases "ORTModelForCausalLM_export libs model_id
    (if cuda_is_available libs then CUDAExecutionProvider else CPUExecutionProvider)")
  case (Inl e)
  show ?thesis
    by (intro exI [where x = "Inl e"] exI [where x = "disk wa"]
        exI [where x = "[Log INFO ExportingToONNX, Call ORTModel_export]"])
      (simp add: convert_and_report_export_raises [OF Inl] assms [symmetric])
next
  case (Inr m)
  show ?thesis
  proof (cases "onnx_save_pretrained libs m p")
    case (Some e)
    show ?thesis
      by (intro exI [where x = "Inl e"] exI [where x = "disk wa"]
          exI [where x = "[Log INFO ExportingToONNX, Call ORTModel_export, Call ORTModel_save]"])
        (simp add: convert_and_report_save_raises [OF Inr Some] assms [symmetric])
  next
    case None
    define d where "d = (disk wa)(p \<mapsto> (dir_at wa p)\<lparr>model_artifact := Some m\<rparr>)"
    define va where "va = emit (Log INFO VerifyingExport) (emit (Log INFO (ONNXModelSavedTo p))
      ((emit (Call ORTModel_save) (emit (Call ORTModel_export) (emit (Log INFO ExportingToONNX) wa)))
        \<lparr>disk := d\<rparr>))"
    define vb where "vb = emit (Log INFO VerifyingExport) (emit (Log INFO (ONNXModelSavedTo p))
      ((emit (Call ORTModel_save) (emit (Call ORTModel_export) (emit (Log INFO ExportingToONNX) wb)))
        \<lparr>disk := d\<rparr>))"
    have db: "d = (disk wb)(p \<mapsto> (dir_at wb p)\<lparr>model_artifact := Some m\<rparr>)"
      by (simp add: d_def dir_at_def assms)
    have "disk va p = disk vb p"
      by (simp add: va_def vb_def)
    from verify_export_same_disk [OF this, of libs tok] obtain new where
      a: "verify_export libs p tok va = (Inr (), va\<lparr>trace := trace va @ new\<rparr>)" and
      b: "verify_export libs p tok vb = (Inr (), vb\<lparr>trace := trace vb @ new\<rparr>)"
      by blast
    define tree where "tree = directory_tree libs ((dir_at wa p)\<lparr>model_artifact := Some m\<rparr>)"
    define xa where "xa = emit (Log INFO (ModelSavedTo p)) (emit (Log INFO ExportCompleted)
            (va\<lparr>trace := trace va @ new\<rparr>))"
    define xb where "xb = emit (Log INFO (ModelSavedTo p)) (emit (Log INFO ExportCompleted)
            (vb\<lparr>trace := trace vb @ new\<rparr>))"
    have dx: "directory_tree libs (dir_at xa p) = tree" "directory_tree libs (dir_at xb p) = tree"
      by (simp_all add: xa_def xb_def va_def vb_def d_def tree_def dir_at_def)
    have ra: "convert_and_report libs model_id p tok wa =
        (case get_dir_size (directory_tree libs (dir_at xa p)) of
           Inl e \<Rightarrow> (Inl e, xa)
         | Inr megabytes \<Rightarrow>
             print_usage_instructions libs p (emit (Log INFO (ModelSizeMB megabytes)) xa))"
      unfolding convert_and_report_def Let_def xa_def
      by (simp add: Inr None a [unfolded va_def d_def] va_def d_def split: sum.splits
          del: if_split)
    have rb: "convert_and_report libs model_id p tok wb =
        (case get_dir_size (directory_tree libs (dir_at xb p)) of
           Inl e \<Rightarrow> (Inl e, xb)
         | Inr megabytes \<Rightarrow>
             print_usage_instructions libs p (emit (Log INFO (ModelSizeMB megabytes)) xb))"
      unfolding convert_and_report_def Let_def xb_def
      by (simp add: Inr None b [unfolded vb_def db] vb_def db split: sum.splits
          del: if_split)
    show ?thesis
    proof (cases "get_dir_size tree")
      case size_raises: (Inl e)
      show ?thesis
        unfolding ra rb dx size_raises
        by (intro exI [where x = "Inl e"] exI [where x = d]
            exI [where x = "[Log INFO ExportingToONNX, Call ORTModel_export, Call ORTModel_save,
                 Log INFO (ONNXModelSavedTo p), Log INFO VerifyingExport]
                @ new @ [Log INFO ExportCompleted, Log INFO (ModelSavedTo p)]"])
          (simp add: xa_def xb_def va_def vb_def emit_as_update)
    next
      case size: (Inr megabytes)
      show ?thesis
        unfolding ra rb dx size
        by (intro exI [where x = "case print_failure libs (usage_lines p) of
                                    None \<Rightarrow> Inr () | Some e \<Rightarrow> Inl e"]
            exI [where x = d]
            exI [where x = "[Log INFO ExportingToONNX, Call ORTModel_export, Call ORTModel_save,
                 Log INFO (ONNXModelSavedTo p), Log INFO VerifyingExport]
                @ new @
                [Log INFO ExportCompleted, Log INFO (ModelSavedTo p),
                 Log INFO (ModelSizeMB megabytes)]
                @ map Print (printed libs (usage_lines p))"])
          (simp add: xa_def xb_def va_def vb_def emit_as_update print_usage_instructions_def
            print_lines_effect)
    qed
  qed
qed

text \<open>
  Claim C10, as the code has it. The model returned by
  \<^verbatim>\<open>AutoModelForCausalLM.from_pretrained\<close> is never used, but the call is made inside the
  \<^verbatim>\<open>try\<close> block. When the call returns, the workflow without the load step ends the same
  way, leaves the same disk and prints the same lines; its events are those of the
  original run without the \<^verbatim>\<open>Loading PyTorch model...\<close> record and the load call.
\<close>

theorem model_load_is_redundant_when_it_returns:
  assumes "AutoModelForCausalLM_from_pretrained libs model_id Float16 ''auto'' True = Inr model"
  shows "fst (export_lfm2_to_onnx_without_load libs model_id output_dir w) =
           fst (export_lfm2_to_onnx libs model_id output_dir w)
       \<and> disk (snd (export_lfm2_to_onnx_without_load libs model_id output_dir w)) =
           disk (snd (export_lfm2_to_onnx libs model_id output_dir w))
       \<and> filter is_Print
             (new_events w (snd (export_lfm2_to_onnx_without_load libs model_id output_dir w))) =
           filter is_Print (new_events w (snd (export_lfm2_to_onnx libs model_id output_dir w)))
       \<and> new_events w (snd (export_lfm2_to_onnx_without_load libs model_id output_dir w)) =
           remove1 (Call AutoModelForCausalLM_load) (remove1 (Log INFO LoadingPyTorchModel)
             (new_events w (snd (export_lfm2_to_onnx libs model_id output_dir w))))"
proof (cases "mkdir libs (Path output_dir)")
  case (Some e)
  then show ?thesis
    unfolding export_lfm2_to_onnx_def export_lfm2_to_onnx_without_load_def Let_def
    by (simp add: emit_as_update)
next
  case None
  define p where "p = Path output_dir"
  define w0 where "w0 = (let w1 = emit (Call Mkdir) (emit (Log INFO (StartingExport model_id)) w)
     in if disk w1 p = None then w1\<lparr>disk := (disk w1)(p \<mapsto> empty_directory)\<rparr> else w1)"
  have w0: "trace w0 = trace w @ [Log INFO (StartingExport model_id), Call Mkdir]"
    by (simp add: w0_def Let_def)
  have with_load: "export_lfm2_to_onnx libs model_id output_dir w =
      (case export_try libs model_id p w0 of
         (Inl e, w) \<Rightarrow> (Inl e, emit (Log ERROR (ExportFailed e)) w)
       | (Inr u, w) \<Rightarrow> (Inr (), w))"
    unfolding export_lfm2_to_onnx_def Let_def w0_def p_def
    using None by simp
  have without_load: "export_lfm2_to_onnx_without_load libs model_id output_dir w =
      (case export_try_without_load libs model_id p w0 of
         (Inl e, w) \<Rightarrow> (Inl e, emit (Log ERROR (ExportFailed e)) w)
       | (Inr u, w) \<Rightarrow> (Inr (), w))"
    unfolding export_lfm2_to_onnx_without_load_def Let_def w0_def p_def
    using None by simp
  show ?thesis
  proof (cases "AutoTokenizer_from_pretrained libs model_id")
    case (Inl e)
    show ?thesis
      by (simp add: with_load without_load export_try_def export_try_without_load_def
          load_and_save_tokenizer_load_raises [OF Inl] emit_as_update w0 new_events_def)
  next
    case (Inr tok)
    define saved where
      "saved = (if pad_token tok = None then tok\<lparr>pad_token := eos_token tok\<rparr> else tok)"
    show ?thesis
    proof (cases "tokenizer_save_pretrained libs saved p")
      case (Some e)
      show ?thesis
        by (simp add: with_load without_load export_try_def export_try_without_load_def
            load_and_save_tokenizer_save_raises [OF Inr saved_def Some] emit_as_update w0
            new_events_def)
    next
      case saved_ok: None
      define w1 where "w1 =
        w0\<lparr>disk := (disk w0)(p \<mapsto> (dir_at w0 p)\<lparr>tokenizer_bundle := Some saved\<rparr>),
              trace := trace w0 @
              [Log INFO LoadingTokenizer, Call AutoTokenizer_load, Call Tokenizer_save,
               Log INFO (TokenizerSavedTo p)]\<rparr>"
      define wa where
        "wa = emit (Call AutoModelForCausalLM_load) (emit (Log INFO LoadingPyTorchModel) w1)"
      have w1: "trace w1 = trace w @ [Log INFO (StartingExport model_id), Call Mkdir,
          Log INFO LoadingTokenizer, Call AutoTokenizer_load, Call Tokenizer_save,
          Log INFO (TokenizerSavedTo p)]"
        by (simp add: w1_def w0)
      have wa: "trace wa = trace w1 @ [Log INFO LoadingPyTorchModel, Call AutoModelForCausalLM_load]"
        "disk wa = disk w1"
        by (simp_all add: wa_def)
      have a: "export_try libs model_id p w0 = convert_and_report libs model_id p saved wa"
        unfolding wa_def w1_def
        by (simp add: export_try_def Let_def assms
            load_and_save_tokenizer_succeeds [OF Inr saved_def saved_ok])
      have b: "export_try_without_load libs model_id p w0 =
          convert_and_report libs model_id p saved w1"
        unfolding w1_def
        by (simp add: export_try_without_load_def
            load_and_save_tokenizer_succeeds [OF Inr saved_def saved_ok])
      from convert_and_report_same_disk [OF wa(2), of libs model_id p saved]
      obtain r d new where
        ca: "convert_and_report libs model_id p saved wa =
               (r, wa\<lparr>disk := d, trace := trace wa @ new\<rparr>)" and
        cb: "convert_and_report libs model_id p saved w1 =
               (r, w1\<lparr>disk := d, trace := trace w1 @ new\<rparr>)"
        by blast
      show ?thesis
      proof (cases r)
        case (Inl e)
        then show ?thesis
          by (simp add: with_load without_load a b ca cb emit_as_update wa w1 new_events_def)
      next
        case (Inr u)
        then show ?thesis
          by (simp add: with_load without_load a b ca cb wa w1 new_events_def)
      qed
    qed
  qed
qed

theorem model_load_is_redundant_when_it_returns_witness:
  "fst (export_lfm2_to_onnx_without_load (demo_libs gpt2_tokenizer) ''LiquidAI/LFM2-350M'' ''out''
          exported_world) =
     fst (export_lfm2_to_onnx (demo_libs gpt2_tokenizer) ''LiquidAI/LFM2-350M'' ''out''
          exported_world)
   \<and> disk (snd (export_lfm2_to_onnx_without_load (demo_libs gpt2_tokenizer) ''LiquidAI/LFM2-350M''
          ''out'' exported_world)) =
     disk (snd (export_lfm2_to_onnx (demo_libs gpt2_tokenizer) ''LiquidAI/LFM2-350M'' ''out''
          exported_world))
   \<and> new_events exported_world (snd (export_lfm2_to_onnx_without_load (demo_libs gpt2_tokenizer)
          ''LiquidAI/LFM2-350M'' ''out'' exported_world)) =
     remove1 (Call AutoModelForCausalLM_load) (remove1 (Log INFO LoadingPyTorchModel)
       (new_events exported_world (snd (export_lfm2_to_onnx (demo_libs gpt2_tokenizer)
          ''LiquidAI/LFM2-350M'' ''out'' exported_world))))"
  using model_load_is_redundant_when_it_returns
    [of "demo_libs gpt2_tokenizer" "''LiquidAI/LFM2-350M'' " "()" "''out''" exported_world]
  by (simp add: demo_libs_sel)

text \<open>
  Claim C10 as it is worded fails when the load raises while the conversion would have
  worked: the original run aborts with the tokenizer only on disk, the run without the
  load step completes and leaves the ONNX model too.
\<close>

theorem model_load_can_abort_the_export_counterexample:
  "fst (export_lfm2_to_onnx failing_load_libs ''LiquidAI/LFM2-350M'' ''out'' fresh_world) =
     Inl accelerate_missing
   \<and> model_artifact (dir_at
        (snd (export_lfm2_to_onnx failing_load_libs ''LiquidAI/LFM2-350M'' ''out'' fresh_world))
        (Path ''out'')) = None
   \<and> fst (export_lfm2_to_onnx_without_load failing_load_libs ''LiquidAI/LFM2-350M'' ''out''
            fresh_world) = Inr ()
   \<and> model_artifact (dir_at
        (snd (export_lfm2_to_onnx_without_load failing_load_libs ''LiquidAI/LFM2-350M'' ''out''
                fresh_world))
        (Path ''out'')) = Some 350"
  unfolding export_lfm2_to_onnx_def export_try_def export_lfm2_to_onnx_without_load_def
    export_try_without_load_def load_and_save_tokenizer_def
    convert_and_report_def verify_export_def verify_export_try_def Let_def
  by (simp add: run_eval failing_load_libs_sel lfm2_tokenizer_def fresh_world_def)


end
